theory Spec2Isabelle
  imports Main
begin

section \<open>Errors, slices and time values\<close>

text \<open>
  The services report failures as Go \<^verbatim>\<open>error\<close> values built by \<^verbatim>\<open>fmt.Errorf\<close> and
  \<^verbatim>\<open>errors.New\<close>; the handlers compare them by their message. An error is modelled by its
  message, a wrapped error (\<^verbatim>\<open>%w\<close>) by the message prefix and the wrapped error. The
  errors of the store are the ones the schema can raise: a query without a row, and a
  violated \<^verbatim>\<open>UNIQUE\<close>, \<^verbatim>\<open>REFERENCES\<close> or \<^verbatim>\<open>CHECK\<close> constraint.
\<close>

datatype pg_error = ErrNoRows | unique_violation | foreign_key_violation | check_violation

datatype error =
    Errorf string
  | Wrapf string error
  | PgError pg_error
  | ParseError

text \<open>
  A Go slice is \<^verbatim>\<open>nil\<close> or holds a (possibly empty) sequence: \<open>None\<close> is the nil slice.
  \<^verbatim>\<open>append\<close> on a nil slice allocates.
\<close>

type_synonym 'a slice = "'a list option"

definition append :: "'a slice \<Rightarrow> 'a \<Rightarrow> 'a slice" where
  "append s x = (case s of None \<Rightarrow> Some [x] | Some xs \<Rightarrow> Some (xs @ [x]))"

text \<open>
  A \<^verbatim>\<open>time.Time\<close> is an instant: the number of nanoseconds since 0001-01-01 00:00:00 UTC.
  \<^verbatim>\<open>Before\<close> compares instants.
\<close>

type_synonym Time = int

definition Before :: "Time \<Rightarrow> Time \<Rightarrow> bool" where
  "Before t u = (t < u)"

definition isLeap :: "int \<Rightarrow> bool" where
  "isLeap year = (year mod 4 = 0 \<and> (year mod 100 \<noteq> 0 \<or> year mod 400 = 0))"

definition daysIn :: "int \<Rightarrow> int \<Rightarrow> int" where
  "daysIn m year =
     (if m = 2 then (if isLeap year then 29 else 28)
      else 30 + ((m + m div 8) mod 2))"

definition daysBefore :: "int \<Rightarrow> int \<Rightarrow> int" where
  "daysBefore m year =
     [0, 31, 59, 90, 120, 151, 181, 212, 243, 273, 304, 334] ! nat (m - 1)
       + (if isLeap year \<and> 2 < m then 1 else 0)"

definition daysSinceEpoch :: "int \<Rightarrow> int" where
  "daysSinceEpoch year =
     (let y = year - 1 in 365 * y + y div 4 - y div 100 + y div 400)"

text \<open>\<^verbatim>\<open>time.Date\<close> in UTC, for fields that are in range (the parser checks them).\<close>

definition time_Date :: "int \<Rightarrow> int \<Rightarrow> int \<Rightarrow> int \<Rightarrow> int \<Rightarrow> int \<Rightarrow> int \<Rightarrow> Time" where
  "time_Date year month day hour minute sec nsec =
     ((((daysSinceEpoch year + daysBefore month year + (day - 1)) * 24 + hour) * 60
        + minute) * 60 + sec) * 1000000000 + nsec"

definition Unix :: "Time \<Rightarrow> int" where
  "Unix t = (t - time_Date 1970 1 1 0 0 0 0) div 1000000000"

subsection \<open>The parser of the time library, on the layouts the services use\<close>

text \<open>
  \<^verbatim>\<open>time.Parse\<close> cuts the layout into chunks, each a literal prefix followed by a field,
  and consumes the value chunk by chunk. The services use three layouts,
  \<^verbatim>\<open>"2006-01-02"\<close>, \<^verbatim>\<open>"15:04:05"\<close> and \<^verbatim>\<open>"2006-01-02 15:04:05"\<close>, whose fields are the
  six below. The hour field \<^verbatim>\<open>15\<close> takes one or two digits; the others have a fixed
  width. A fractional second after the seconds field is accepted even though the layout
  has none.
\<close>

datatype std = stdLongYear | stdZeroMonth | stdZeroDay | stdHour | stdZeroMinute | stdZeroSecond

type_synonym layout = "(string \<times> std) list"

definition layout_date :: layout where
  "layout_date = [([], stdLongYear), (''-'', stdZeroMonth), (''-'', stdZeroDay)]"

definition layout_time :: layout where
  "layout_time = [([], stdHour), ('':'', stdZeroMinute), ('':'', stdZeroSecond)]"

definition layout_datetime :: layout where
  "layout_datetime =
     [([], stdLongYear), (''-'', stdZeroMonth), (''-'', stdZeroDay),
      ('' '', stdHour), ('':'', stdZeroMinute), ('':'', stdZeroSecond)]"

record fields =
  f_year :: int
  f_month :: int
  f_day :: int
  f_hour :: int
  f_min :: int
  f_sec :: int
  f_nsec :: int

definition isDigitChar :: "char \<Rightarrow> bool" where
  "isDigitChar c = (48 \<le> (of_char c :: nat) \<and> (of_char c :: nat) \<le> 57)"

definition digitVal :: "char \<Rightarrow> int" where
  "digitVal c = int (of_char c) - 48"

definition isDigit :: "string \<Rightarrow> nat \<Rightarrow> bool" where
  "isDigit s i = (i < length s \<and> isDigitChar (s ! i))"

definition atoi_digits :: "string \<Rightarrow> int" where
  "atoi_digits s = foldl (\<lambda>x c. x * 10 + digitVal c) 0 s"

definition getnum :: "string \<Rightarrow> bool \<Rightarrow> (int \<times> string) option" where
  "getnum s fixed =
     (if \<not> isDigit s 0 then None
      else if \<not> isDigit s 1 then
        (if fixed then None else Some (digitVal (s ! 0), drop 1 s))
      else Some (digitVal (s ! 0) * 10 + digitVal (s ! 1), drop 2 s))"

definition cutspace :: "string \<Rightarrow> string" where
  "cutspace s = dropWhile (\<lambda>c. c = CHR '' '') s"

function skip :: "string \<Rightarrow> string \<Rightarrow> string option" where
  "skip v [] = Some v"
| "skip v (p # ps) =
     (if p = CHR '' '' then
        (if v \<noteq> [] \<and> hd v \<noteq> CHR '' '' then None
         else skip (cutspace v) (cutspace (p # ps)))
      else if v = [] \<or> hd v \<noteq> p then None
      else skip (tl v) ps)"
  by pat_completeness auto
termination
proof (relation "measure (\<lambda>(v, p). length p)")
  show "wf (measure (\<lambda>(v, p). length p))" by simp
next
  fix v :: string and p :: char and ps :: string
  assume "p = CHR '' ''"
  then have "length (cutspace (p # ps)) \<le> length ps"
    by (simp add: cutspace_def length_dropWhile_le)
  then show "((cutspace v, cutspace (p # ps)), (v, p # ps)) \<in> measure (\<lambda>(v, p). length p)"
    by simp
next
  fix v :: string and p :: char and ps :: string
  show "((tl v, ps), (v, p # ps)) \<in> measure (\<lambda>(v, p). length p)" by simp
qed

definition commaOrPeriod :: "char \<Rightarrow> bool" where
  "commaOrPeriod c = (c = CHR ''.'' \<or> c = CHR '','')"

definition parseNanoseconds :: "string \<Rightarrow> nat \<Rightarrow> int" where
  "parseNanoseconds v nbytes =
     (let n = (if 10 < nbytes then 10 else nbytes)
      in atoi_digits (drop 1 (take n v)) * 10 ^ (10 - n))"

definition parse_chunk :: "std \<Rightarrow> fields \<Rightarrow> string \<Rightarrow> (fields \<times> string) option" where
  "parse_chunk s f v =
     (case s of
        stdLongYear \<Rightarrow>
          (if length v < 4 \<or> \<not> isDigit v 0 then None
           else if \<not> (\<forall>c \<in> set (take 4 v). isDigitChar c) then None
           else Some (f\<lparr>f_year := atoi_digits (take 4 v)\<rparr>, drop 4 v))
      | stdZeroMonth \<Rightarrow>
          (case getnum v True of None \<Rightarrow> None
           | Some (month, v') \<Rightarrow>
               if month \<le> 0 \<or> 12 < month then None else Some (f\<lparr>f_month := month\<rparr>, v'))
      | stdZeroDay \<Rightarrow>
          (case getnum v True of None \<Rightarrow> None
           | Some (day, v') \<Rightarrow> Some (f\<lparr>f_day := day\<rparr>, v'))
      | stdHour \<Rightarrow>
          (case getnum v False of None \<Rightarrow> None
           | Some (hour, v') \<Rightarrow>
               if hour < 0 \<or> 24 \<le> hour then None else Some (f\<lparr>f_hour := hour\<rparr>, v'))
      | stdZeroMinute \<Rightarrow>
          (case getnum v True of None \<Rightarrow> None
           | Some (minute, v') \<Rightarrow>
               if minute < 0 \<or> 60 \<le> minute then None else Some (f\<lparr>f_min := minute\<rparr>, v'))
      | stdZeroSecond \<Rightarrow>
          (case getnum v True of None \<Rightarrow> None
           | Some (sec, v') \<Rightarrow>
               if sec < 0 \<or> 60 \<le> sec then None
               else if 2 \<le> length v' \<and> commaOrPeriod (v' ! 0) \<and> isDigit v' 1 then
                 (let n = 2 + length (takeWhile isDigitChar (drop 2 v'))
                  in Some (f\<lparr>f_sec := sec, f_nsec := parseNanoseconds v' n\<rparr>, drop n v'))
               else Some (f\<lparr>f_sec := sec\<rparr>, v')))"

fun parse_loop :: "layout \<Rightarrow> fields \<Rightarrow> string \<Rightarrow> fields option" where
  "parse_loop [] f v = (if v \<noteq> [] then None else Some f)"
| "parse_loop ((prefix, s) # rest) f v =
     (case skip v prefix of None \<Rightarrow> None
      | Some v1 \<Rightarrow>
          (case parse_chunk s f v1 of None \<Rightarrow> None
           | Some (f', v2) \<Rightarrow> parse_loop rest f' v2))"

definition time_Parse :: "layout \<Rightarrow> string \<Rightarrow> error + Time" where
  "time_Parse l v =
     (case parse_loop l
             \<lparr>f_year = 0, f_month = -1, f_day = -1, f_hour = 0, f_min = 0, f_sec = 0, f_nsec = 0\<rparr> v of
        None \<Rightarrow> Inl ParseError
      | Some f \<Rightarrow>
          (let month = (if f_month f < 0 then 1 else f_month f);
               day = (if f_day f < 0 then 1 else f_day f)
           in if day < 1 \<or> daysIn month (f_year f) < day then Inl ParseError
              else Inr (time_Date (f_year f) month day (f_hour f) (f_min f) (f_sec f) (f_nsec f))))"


section \<open>The data model\<close>

text \<open>
  Modelled from the spec: the package \<^verbatim>\<open>internal/user\<close> (the types \<^verbatim>\<open>User\<close>,
  \<^verbatim>\<open>LoginRequest\<close> and \<^verbatim>\<open>AuthResponse\<close>) is not among the sources; the records below
  have the fields that \<^verbatim>\<open>Login\<close> reads and writes and the columns of the table \<^verbatim>\<open>users\<close>.
\<close>

record User =
  user_ID :: int
  user_Email :: string
  PasswordHash :: string
  user_CreatedAt :: Time

record LoginRequest =
  login_Email :: string
  login_Password :: string

record AuthResponse =
  Token :: string

record Event =
  ID :: int
  Title :: string
  Description :: string
  Date :: Time
  Time :: Time
  Location :: string
  OrganizerID :: int
  CreatedAt :: Time

record CreateEventRequest =
  req_Title :: string
  req_Description :: string
  req_Date :: string
  req_Time :: string
  req_Location :: string

record UpdateEventRequest =
  upd_Title :: string
  upd_Description :: string
  upd_Date :: string
  upd_Time :: string
  upd_Location :: string

record EventAttendee =
  att_ID :: int
  UserID :: int
  EventID :: int
  Role :: string
  Status :: string
  att_CreatedAt :: Time

record EventWithAttendeeInfo = Event +
  info_Role :: string
  info_Status :: string

record AddAttendeeRequest =
  add_UserID :: int
  add_Role :: string

record Invitation =
  inv_ID :: int
  inv_EventID :: int
  InviterID :: int
  InviteeEmail :: string
  InviteeID :: "int option"
  inv_Role :: string
  inv_Status :: string
  Message :: string
  inv_CreatedAt :: Time
  RespondedAt :: "Time option"

text \<open>
  The joined columns \<^verbatim>\<open>e.date\<close> and \<^verbatim>\<open>e.time\<close> are scanned into Go strings; the model keeps
  the column values and leaves the driver's rendering of them out.
\<close>

record InvitationWithDetails = Invitation +
  EventTitle :: string
  EventDate :: Time
  EventTime :: Time
  EventLocation :: string
  InviterEmail :: string

section \<open>The relational store\<close>

text \<open>
  The store holds the four tables and the two sequences behind the \<^verbatim>\<open>SERIAL\<close> keys that the
  modelled statements draw from. A statement fails only where the schema makes it fail:
  the store itself is reliable (no lost connection, no cancelled context), and requests do
  not interleave. A column holds the Go value that was written to it.
\<close>

record DB =
  users :: "User list"
  events :: "Event list"
  event_attendees :: "EventAttendee list"
  invitations :: "Invitation list"
  events_id_seq :: int
  event_attendees_id_seq :: int

text \<open>\<^verbatim>\<open>QueryRow(...).Scan\<close>: the first row of the result, or \<^verbatim>\<open>ErrNoRows\<close>.\<close>

definition QueryRow :: "'a list \<Rightarrow> error + 'a" where
  "QueryRow rows = (case rows of [] \<Rightarrow> Inl (PgError ErrNoRows) | r # _ \<Rightarrow> Inr r)"

text \<open>
  The loop \<^verbatim>\<open>for rows.Next() { ...; xs = append(xs, x) }\<close> over a slice declared with
  \<^verbatim>\<open>var\<close>, which starts as nil.
\<close>

definition scan_rows :: "'a list \<Rightarrow> 'a slice" where
  "scan_rows rows = foldl append None rows"

text \<open>
  \<^verbatim>\<open>ORDER BY key DESC\<close>. SQL leaves the order of rows with equal keys open; the model keeps
  them in table order.
\<close>

definition ORDER_BY_DESC :: "('a \<Rightarrow> int) \<Rightarrow> 'a list \<Rightarrow> 'a list" where
  "ORDER_BY_DESC key rows = sort_key (\<lambda>r. - key r) rows"

text \<open>
  \<^verbatim>\<open>INSERT INTO events ... RETURNING id, created_at\<close>. The key is drawn from the sequence
  (also when the row is then rejected); \<^verbatim>\<open>organizer_id\<close> must reference a user.
\<close>

definition insert_event :: "Time \<Rightarrow> Event \<Rightarrow> DB \<Rightarrow> (error + Event) \<times> DB" where
  "insert_event now e db =
     (let row = e\<lparr>ID := events_id_seq db, CreatedAt := now\<rparr>;
          db1 = db\<lparr>events_id_seq := events_id_seq db + 1\<rparr>
      in if \<exists>r \<in> set (events db). ID r = ID row then (Inl (PgError unique_violation), db1)
         else if \<not> (\<exists>u \<in> set (users db). user_ID u = OrganizerID row)
           then (Inl (PgError foreign_key_violation), db1)
         else (Inr row, db1\<lparr>events := events db @ [row]\<rparr>))"

text \<open>
  \<^verbatim>\<open>INSERT INTO event_attendees (user_id, event_id, role, status)\<close>: the two \<^verbatim>\<open>CHECK\<close>
  constraints, the primary key, \<^verbatim>\<open>UNIQUE(user_id, event_id)\<close> and the two foreign keys.
\<close>

definition insert_event_attendee ::
    "Time \<Rightarrow> int \<Rightarrow> int \<Rightarrow> string \<Rightarrow> string \<Rightarrow> DB \<Rightarrow> error option \<times> DB" where
  "insert_event_attendee now user_id event_id role status db =
     (let row = \<lparr>att_ID = event_attendees_id_seq db, UserID = user_id, EventID = event_id,
                 Role = role, Status = status, att_CreatedAt = now\<rparr>;
          db1 = db\<lparr>event_attendees_id_seq := event_attendees_id_seq db + 1\<rparr>
      in if role \<notin> set [''organizer'', ''attendee'', ''collaborator'']
           then (Some (PgError check_violation), db1)
         else if status \<notin> set [''going'', ''maybe'', ''not_going'']
           then (Some (PgError check_violation), db1)
         else if \<exists>a \<in> set (event_attendees db). att_ID a = att_ID row
           then (Some (PgError unique_violation), db1)
         else if \<exists>a \<in> set (event_attendees db). UserID a = user_id \<and> EventID a = event_id
           then (Some (PgError unique_violation), db1)
         else if \<not> (\<exists>u \<in> set (users db). user_ID u = user_id)
           then (Some (PgError foreign_key_violation), db1)
         else if \<not> (\<exists>e \<in> set (events db). ID e = event_id)
           then (Some (PgError foreign_key_violation), db1)
         else (None, db1\<lparr>event_attendees := event_attendees db @ [row]\<rparr>))"

section \<open>The event repository\<close>

definition Repository_CreateEvent :: "Time \<Rightarrow> Event \<Rightarrow> DB \<Rightarrow> (error + Event) \<times> DB" where
  "Repository_CreateEvent now event db =
     (case insert_event now event db of
        (Inl err, db') \<Rightarrow> (Inl (Wrapf ''failed to create event: %w'' err), db')
      | (Inr event', db') \<Rightarrow> (Inr event', db'))"

definition Repository_GetEventByID :: "DB \<Rightarrow> int \<Rightarrow> error + Event" where
  "Repository_GetEventByID db eventID =
     (case QueryRow (filter (\<lambda>e. ID e = eventID) (events db)) of
        Inl err \<Rightarrow> Inl (Wrapf ''failed to get event: %w'' err)
      | Inr event \<Rightarrow> Inr event)"

definition Repository_GetAllEvents :: "DB \<Rightarrow> error + Event slice" where
  "Repository_GetAllEvents db = Inr (scan_rows (ORDER_BY_DESC Date (events db)))"

definition Repository_GetEventsByOrganizerID :: "DB \<Rightarrow> int \<Rightarrow> error + Event slice" where
  "Repository_GetEventsByOrganizerID db organizerID =
     Inr (scan_rows (ORDER_BY_DESC Date (filter (\<lambda>e. OrganizerID e = organizerID) (events db))))"

text \<open>
  \<^verbatim>\<open>UpdateEvent\<close> reads the row, overwrites the fields whose patch value is not the empty
  string, and writes all five columns back with
  \<^verbatim>\<open>UPDATE events SET ... WHERE id = $6 RETURNING ...\<close>.
\<close>

definition Repository_UpdateEvent ::
    "int \<Rightarrow> UpdateEventRequest \<Rightarrow> DB \<Rightarrow> (error + Event) \<times> DB" where
  "Repository_UpdateEvent eventID updates db =
     (case Repository_GetEventByID db eventID of
        Inl err \<Rightarrow> (Inl err, db)
      | Inr currentEvent \<Rightarrow>
          (let c1 = (if upd_Title updates \<noteq> [] then currentEvent\<lparr>Title := upd_Title updates\<rparr>
                     else currentEvent);
               c2 = (if upd_Description updates \<noteq> []
                     then c1\<lparr>Description := upd_Description updates\<rparr> else c1)
           in case (if upd_Date updates \<noteq> []
                    then (case time_Parse layout_date (upd_Date updates) of
                            Inl err \<Rightarrow> Inl (Wrapf ''invalid date format: %w'' err)
                          | Inr eventDate \<Rightarrow> Inr (c2\<lparr>Date := eventDate\<rparr>))
                    else Inr c2) of
                Inl err \<Rightarrow> (Inl err, db)
              | Inr c3 \<Rightarrow>
                  (case (if upd_Time updates \<noteq> []
                         then (case time_Parse layout_time (upd_Time updates) of
                                 Inl err \<Rightarrow> Inl (Wrapf ''invalid time format: %w'' err)
                               | Inr eventTime \<Rightarrow> Inr (c3\<lparr>Time := eventTime\<rparr>))
                         else Inr c3) of
                     Inl err \<Rightarrow> (Inl err, db)
                   | Inr c4 \<Rightarrow>
                       (let c5 = (if upd_Location updates \<noteq> []
                                  then c4\<lparr>Location := upd_Location updates\<rparr> else c4);
                            db' = db\<lparr>events :=
                                    map (\<lambda>e. if ID e = eventID
                                              then e\<lparr>Title := Title c5, Description := Description c5,
                                                     Date := Date c5, Time := Time c5,
                                                     Location := Location c5\<rparr>
                                              else e) (events db)\<rparr>
                        in case QueryRow (filter (\<lambda>e. ID e = eventID) (events db')) of
                             Inl err \<Rightarrow> (Inl (Wrapf ''failed to update event: %w'' err), db')
                           | Inr updated \<Rightarrow> (Inr updated, db')))))"

text \<open>
  \<^verbatim>\<open>DELETE FROM events WHERE id = $1\<close>. The attendee rows of the event go with it
  (\<^verbatim>\<open>ON DELETE CASCADE\<close>). Modelled from the spec: the table \<^verbatim>\<open>invitations\<close> has no
  definition in the schema file; its rows for the event are deleted as well, as the
  specification says of its foreign key.
\<close>

definition Repository_DeleteEvent :: "int \<Rightarrow> DB \<Rightarrow> error option \<times> DB" where
  "Repository_DeleteEvent eventID db =
     (if length (filter (\<lambda>e. ID e = eventID) (events db)) = 0
      then (Some (Errorf ''event not found''), db)
      else (None,
            db\<lparr>events := filter (\<lambda>e. ID e \<noteq> eventID) (events db),
               event_attendees := filter (\<lambda>a. EventID a \<noteq> eventID) (event_attendees db),
               invitations := filter (\<lambda>i. inv_EventID i \<noteq> eventID) (invitations db)\<rparr>))"

definition Repository_JoinEvent :: "Time \<Rightarrow> int \<Rightarrow> int \<Rightarrow> DB \<Rightarrow> error option \<times> DB" where
  "Repository_JoinEvent now userID eventID db =
     (case insert_event_attendee now userID eventID ''attendee'' ''going'' db of
        (Some err, db') \<Rightarrow> (Some (Wrapf ''failed to join event: %w'' err), db')
      | (None, db') \<Rightarrow> (None, db'))"

definition Repository_AddOrganizerAsAttendee ::
    "Time \<Rightarrow> int \<Rightarrow> int \<Rightarrow> DB \<Rightarrow> error option \<times> DB" where
  "Repository_AddOrganizerAsAttendee now userID eventID db =
     (case insert_event_attendee now userID eventID ''organizer'' ''going'' db of
        (Some err, db') \<Rightarrow> (Some (Wrapf ''failed to add organizer as attendee: %w'' err), db')
      | (None, db') \<Rightarrow> (None, db'))"

definition Repository_AddAttendee ::
    "Time \<Rightarrow> int \<Rightarrow> int \<Rightarrow> string \<Rightarrow> DB \<Rightarrow> error option \<times> DB" where
  "Repository_AddAttendee now eventID userID role db =
     (case insert_event_attendee now userID eventID role ''going'' db of
        (Some err, db') \<Rightarrow> (Some (Wrapf ''failed to add user to event: %w'' err), db')
      | (None, db') \<Rightarrow> (None, db'))"

text \<open>The join of \<^verbatim>\<open>events\<close> with \<^verbatim>\<open>event_attendees\<close> on the event key, for one user.\<close>

definition Repository_GetEventsByAttendeeID ::
    "DB \<Rightarrow> int \<Rightarrow> error + EventWithAttendeeInfo slice" where
  "Repository_GetEventsByAttendeeID db userID =
     Inr (scan_rows (ORDER_BY_DESC Date
       (concat (map (\<lambda>e. map (\<lambda>ea. Event.extend e \<lparr>info_Role = Role ea, info_Status = Status ea\<rparr>)
                           (filter (\<lambda>ea. EventID ea = ID e \<and> UserID ea = userID)
                              (event_attendees db)))
                 (events db)))))"

definition Repository_GetMyOrganizedEvents :: "DB \<Rightarrow> int \<Rightarrow> error + Event slice" where
  "Repository_GetMyOrganizedEvents db organizerID =
     Inr (scan_rows (ORDER_BY_DESC Date (filter (\<lambda>e. OrganizerID e = organizerID) (events db))))"

definition Repository_GetEventAttendees :: "DB \<Rightarrow> int \<Rightarrow> error + EventAttendee slice" where
  "Repository_GetEventAttendees db eventID =
     Inr (scan_rows (ORDER_BY_DESC att_CreatedAt
       (filter (\<lambda>a. EventID a = eventID) (event_attendees db))))"

section \<open>The event service\<close>

definition validateCreateRequest :: "CreateEventRequest \<Rightarrow> error option" where
  "validateCreateRequest req =
     (if req_Title req = [] then Some (Errorf ''event title is required'')
      else if req_Date req = [] then Some (Errorf ''event date is required'')
      else if req_Time req = [] then Some (Errorf ''event time is required'')
      else if req_Location req = [] then Some (Errorf ''event location is required'')
      else if 255 < length (req_Title req)
        then Some (Errorf ''event title must not exceed 255 characters'')
      else if 1000 < length (req_Description req)
        then Some (Errorf ''event description must not exceed 1000 characters'')
      else None)"

definition validateDateFormat :: "string \<Rightarrow> error option" where
  "validateDateFormat date =
     (case time_Parse layout_date date of
        Inl err \<Rightarrow> Some (Errorf ''invalid date format, use YYYY-MM-DD'')
      | Inr _ \<Rightarrow> None)"

definition validateTimeFormat :: "string \<Rightarrow> error option" where
  "validateTimeFormat timeStr =
     (case time_Parse layout_time timeStr of
        Inl err \<Rightarrow> Some (Errorf ''invalid time format, use HH:MM:SS'')
      | Inr _ \<Rightarrow> None)"

definition validateDateTime :: "string \<Rightarrow> string \<Rightarrow> error option" where
  "validateDateTime date timeStr =
     (case validateDateFormat date of
        Some err \<Rightarrow> Some err
      | None \<Rightarrow> (case validateTimeFormat timeStr of Some err \<Rightarrow> Some err | None \<Rightarrow> None))"

text \<open>\<open>now\<close> is the reading of \<^verbatim>\<open>time.Now()\<close>.\<close>

definition validateFutureEvent :: "Time \<Rightarrow> string \<Rightarrow> string \<Rightarrow> error option" where
  "validateFutureEvent now date timeStr =
     (case time_Parse layout_datetime (date @ '' '' @ timeStr) of
        Inl err \<Rightarrow> Some (Errorf ''failed to parse event date and time'')
      | Inr eventDateTime \<Rightarrow>
          if Before eventDateTime now
          then Some (Errorf ''event date and time must be in the future'')
          else None)"

text \<open>
  \<open>now\<close> also stands for the store's \<^verbatim>\<open>NOW()\<close>, the default of \<^verbatim>\<open>created_at\<close>. The
  operations return the store next to their result: a statement that has run stays run
  when a later step fails.
\<close>

definition Service_CreateEvent ::
    "Time \<Rightarrow> CreateEventRequest \<Rightarrow> int \<Rightarrow> DB \<Rightarrow> (error + Event) \<times> DB" where
  "Service_CreateEvent now req organizerID db =
     (case validateCreateRequest req of
        Some err \<Rightarrow> (Inl err, db)
      | None \<Rightarrow>
     (case validateDateTime (req_Date req) (req_Time req) of
        Some err \<Rightarrow> (Inl err, db)
      | None \<Rightarrow>
     (case validateFutureEvent now (req_Date req) (req_Time req) of
        Some err \<Rightarrow> (Inl err, db)
      | None \<Rightarrow>
     (case time_Parse layout_date (req_Date req) of
        Inl err \<Rightarrow> (Inl (Wrapf ''invalid date format: %w'' err), db)
      | Inr eventDate \<Rightarrow>
     (case time_Parse layout_time (req_Time req) of
        Inl err \<Rightarrow> (Inl (Wrapf ''invalid time format: %w'' err), db)
      | Inr eventTime \<Rightarrow>
     (let event = \<lparr>ID = 0, Title = req_Title req, Description = req_Description req,
                   Date = eventDate, Time = eventTime, Location = req_Location req,
                   OrganizerID = organizerID, CreatedAt = 0\<rparr>
      in case Repository_CreateEvent now event db of
           (Inl err, db1) \<Rightarrow> (Inl err, db1)
         | (Inr event', db1) \<Rightarrow>
             (case Repository_AddOrganizerAsAttendee now organizerID (ID event') db1 of
                (Some err, db2) \<Rightarrow>
                  (Inl (Wrapf ''failed to add organizer as attendee: %w'' err), db2)
              | (None, db2) \<Rightarrow> (Inr event', db2))))))))"

definition Service_GetAllEvents :: "DB \<Rightarrow> error + Event slice" where
  "Service_GetAllEvents db =
     (case Repository_GetAllEvents db of
        Inl err \<Rightarrow> Inl err
      | Inr evs \<Rightarrow> Inr (if evs = None then Some [] else evs))"

definition Service_GetEventsByOrganizerID :: "DB \<Rightarrow> int \<Rightarrow> error + Event slice" where
  "Service_GetEventsByOrganizerID db organizerID =
     (if organizerID \<le> 0 then Inl (Errorf ''invalid organizer ID'')
      else case Repository_GetEventsByOrganizerID db organizerID of
             Inl err \<Rightarrow> Inl err
           | Inr evs \<Rightarrow> Inr (if evs = None then Some [] else evs))"

definition Service_UpdateEvent ::
    "Time \<Rightarrow> int \<Rightarrow> UpdateEventRequest \<Rightarrow> int \<Rightarrow> DB \<Rightarrow> (error + Event) \<times> DB" where
  "Service_UpdateEvent now eventID req organizerID db =
     (if eventID \<le> 0 then (Inl (Errorf ''invalid event ID''), db)
      else case Repository_GetEventByID db eventID of
        Inl err \<Rightarrow> (Inl err, db)
      | Inr event \<Rightarrow>
          if OrganizerID event \<noteq> organizerID
          then (Inl (Errorf ''you are not authorized to update this event''), db)
          else
            (case (if upd_Date req \<noteq> [] \<and> upd_Time req \<noteq> [] then
                     (case validateDateTime (upd_Date req) (upd_Time req) of
                        Some err \<Rightarrow> Some err
                      | None \<Rightarrow> validateFutureEvent now (upd_Date req) (upd_Time req))
                   else if upd_Date req \<noteq> [] then validateDateFormat (upd_Date req)
                   else if upd_Time req \<noteq> [] then validateTimeFormat (upd_Time req)
                   else None) of
               Some err \<Rightarrow> (Inl err, db)
             | None \<Rightarrow> Repository_UpdateEvent eventID req db))"

definition Service_DeleteEvent :: "int \<Rightarrow> int \<Rightarrow> DB \<Rightarrow> error option \<times> DB" where
  "Service_DeleteEvent eventID organizerID db =
     (if eventID \<le> 0 then (Some (Errorf ''invalid event ID''), db)
      else case Repository_GetEventByID db eventID of
        Inl err \<Rightarrow> (Some err, db)
      | Inr event \<Rightarrow>
          if OrganizerID event \<noteq> organizerID
          then (Some (Errorf ''you are not authorized to delete this event''), db)
          else Repository_DeleteEvent eventID db)"

definition Service_JoinEvent :: "Time \<Rightarrow> int \<Rightarrow> int \<Rightarrow> DB \<Rightarrow> error option \<times> DB" where
  "Service_JoinEvent now userID eventID db =
     (if userID \<le> 0 then (Some (Errorf ''invalid user ID''), db)
      else if eventID \<le> 0 then (Some (Errorf ''invalid event ID''), db)
      else case Repository_GetEventByID db eventID of
        Inl err \<Rightarrow> (Some (Errorf ''event not found''), db)
      | Inr _ \<Rightarrow> Repository_JoinEvent now userID eventID db)"

definition Service_GetMyAttendingEvents ::
    "DB \<Rightarrow> int \<Rightarrow> error + EventWithAttendeeInfo slice" where
  "Service_GetMyAttendingEvents db userID =
     (if userID \<le> 0 then Inl (Errorf ''invalid user ID'')
      else case Repository_GetEventsByAttendeeID db userID of
             Inl err \<Rightarrow> Inl err
           | Inr evs \<Rightarrow> Inr (if evs = None then Some [] else evs))"

definition Service_InviteUserToEvent ::
    "Time \<Rightarrow> int \<Rightarrow> int \<Rightarrow> AddAttendeeRequest \<Rightarrow> DB \<Rightarrow> error option \<times> DB" where
  "Service_InviteUserToEvent now eventID inviterID req db =
     (if eventID \<le> 0 then (Some (Errorf ''invalid event ID''), db)
      else if inviterID \<le> 0 then (Some (Errorf ''invalid inviter ID''), db)
      else if add_UserID req \<le> 0 then (Some (Errorf ''invalid user ID''), db)
      else if add_Role req \<noteq> ''attendee'' \<and> add_Role req \<noteq> ''collaborator''
              \<and> add_Role req \<noteq> ''organizer''
        then (Some (Errorf (''invalid role: must be 'attendee', 'collaborator', or 'organizer''
                               @ [CHR 0x27])), db)
      else case Repository_GetEventByID db eventID of
        Inl err \<Rightarrow> (Some (Errorf ''event not found''), db)
      | Inr event \<Rightarrow>
          if OrganizerID event \<noteq> inviterID
          then (Some (Errorf ''only the event creator can invite users to this event''), db)
          else if add_UserID req = inviterID
          then (Some (Errorf ''you cannot invite yourself to the event''), db)
          else Repository_AddAttendee now eventID (add_UserID req) (add_Role req) db)"

definition Service_GetEventAttendees :: "DB \<Rightarrow> int \<Rightarrow> error + EventAttendee slice" where
  "Service_GetEventAttendees db eventID =
     (if eventID \<le> 0 then Inl (Errorf ''invalid event ID'')
      else case Repository_GetEventAttendees db eventID of
             Inl err \<Rightarrow> Inl err
           | Inr attendees \<Rightarrow> Inr (if attendees = None then Some [] else attendees))"

definition Service_GetMyOrganizedEvents :: "DB \<Rightarrow> int \<Rightarrow> error + Event slice" where
  "Service_GetMyOrganizedEvents db organizerID =
     (if organizerID \<le> 0 then Inl (Errorf ''invalid organizer ID'')
      else case Repository_GetMyOrganizedEvents db organizerID of
             Inl err \<Rightarrow> Inl err
           | Inr evs \<Rightarrow> Inr (if evs = None then Some [] else evs))"

section \<open>The invitation repository and service\<close>

definition Repository_GetInvitationByID :: "DB \<Rightarrow> int \<Rightarrow> error + Invitation" where
  "Repository_GetInvitationByID db invitationID =
     (case QueryRow (filter (\<lambda>i. inv_ID i = invitationID) (invitations db)) of
        Inl err \<Rightarrow> Inl (Wrapf ''failed to get invitation: %w'' err)
      | Inr invitation \<Rightarrow> Inr invitation)"

text \<open>
  The rows of \<^verbatim>\<open>invitations i JOIN events e ON i.event_id = e.id JOIN users u ON
  i.inviter_id = u.id\<close> that satisfy the \<^verbatim>\<open>WHERE\<close> condition \<open>P\<close>.
\<close>

definition invitation_details :: "DB \<Rightarrow> (Invitation \<Rightarrow> bool) \<Rightarrow> InvitationWithDetails list" where
  "invitation_details db P =
     concat (map (\<lambda>i.
       concat (map (\<lambda>e.
         map (\<lambda>u. Invitation.extend i
                    \<lparr>EventTitle = Title e, EventDate = Date e, EventTime = Time e,
                     EventLocation = Location e, InviterEmail = user_Email u\<rparr>)
             (filter (\<lambda>u. InviterID i = user_ID u) (users db)))
         (filter (\<lambda>e. inv_EventID i = ID e) (events db))))
       (filter P (invitations db)))"

definition Repository_GetInvitationsByEmail ::
    "DB \<Rightarrow> string \<Rightarrow> error + InvitationWithDetails slice" where
  "Repository_GetInvitationsByEmail db email =
     Inr (scan_rows (ORDER_BY_DESC inv_CreatedAt
       (invitation_details db (\<lambda>i. InviteeEmail i = email))))"

definition Repository_GetInvitationsByEventID ::
    "DB \<Rightarrow> int \<Rightarrow> error + InvitationWithDetails slice" where
  "Repository_GetInvitationsByEventID db eventID =
     Inr (scan_rows (ORDER_BY_DESC inv_CreatedAt
       (invitation_details db (\<lambda>i. inv_EventID i = eventID))))"

text \<open>
  \<^verbatim>\<open>UPDATE invitations SET status = $1, responded_at = $2 WHERE id = $3\<close>, with
  \<^verbatim>\<open>time.Now()\<close> for \<^verbatim>\<open>$2\<close>. The number of rows affected is not looked at.
\<close>

definition Repository_UpdateInvitationStatus ::
    "Time \<Rightarrow> int \<Rightarrow> string \<Rightarrow> DB \<Rightarrow> error option \<times> DB" where
  "Repository_UpdateInvitationStatus now invitationID status db =
     (None,
      db\<lparr>invitations :=
           map (\<lambda>i. if inv_ID i = invitationID
                     then i\<lparr>inv_Status := status, RespondedAt := Some now\<rparr> else i)
               (invitations db)\<rparr>)"

definition Service_GetMyInvitations ::
    "DB \<Rightarrow> string \<Rightarrow> error + InvitationWithDetails slice" where
  "Service_GetMyInvitations db email =
     (case Repository_GetInvitationsByEmail db email of
        Inl err \<Rightarrow> Inl err
      | Inr invs \<Rightarrow> Inr (if invs = None then Some [] else invs))"

definition Service_GetEventInvitations ::
    "DB \<Rightarrow> int \<Rightarrow> error + InvitationWithDetails slice" where
  "Service_GetEventInvitations db eventID =
     (case Repository_GetInvitationsByEventID db eventID of
        Inl err \<Rightarrow> Inl err
      | Inr invs \<Rightarrow> Inr (if invs = None then Some [] else invs))"

text \<open>
  After the status update the source has an \<^verbatim>\<open>if status == "accepted" && invitation.InviteeID
  != nil\<close> whose body is a comment only: nothing is done in it.
\<close>

definition Service_RespondToInvitation ::
    "Time \<Rightarrow> int \<Rightarrow> string \<Rightarrow> string \<Rightarrow> DB \<Rightarrow> error option \<times> DB" where
  "Service_RespondToInvitation now invitationID status userEmail db =
     (if status \<noteq> ''accepted'' \<and> status \<noteq> ''declined''
        then (Some (Errorf (''invalid status: must be 'accepted' or 'declined''
                               @ [CHR 0x27])), db)
      else case Repository_GetInvitationByID db invitationID of
        Inl err \<Rightarrow> (Some (Wrapf ''invitation not found: %w'' err), db)
      | Inr invitation \<Rightarrow>
          if InviteeEmail invitation \<noteq> userEmail
          then (Some (Errorf ''you are not authorized to respond to this invitation''), db)
          else if inv_Status invitation \<noteq> ''pending''
          then (Some (Errorf ''invitation has already been responded to''), db)
          else (case Repository_UpdateInvitationStatus now invitationID status db of
                  (Some err, db') \<Rightarrow> (Some err, db')
                | (None, db') \<Rightarrow>
                    (if status = ''accepted'' \<and> InviteeID invitation \<noteq> None
                     then (None, db') else (None, db'))))"

section \<open>The authentication service\<close>

text \<open>
  The password hash and the token signature are primitives of libraries outside the
  repository: \<open>CompareHashAndPassword\<close> (nil when the password matches the hash) and
  \<open>SignedString\<close> (the signed token for the claims \<^verbatim>\<open>user_id\<close> and \<^verbatim>\<open>exp\<close> under a
  secret) are parameters. \<open>JWT_SECRET\<close> is the value of the environment variable.
\<close>

record Deps =
  CompareHashAndPassword :: "string \<Rightarrow> string \<Rightarrow> error option"
  SignedString :: "int \<times> int \<Rightarrow> string \<Rightarrow> error + string"
  JWT_SECRET :: string

definition generateToken :: "Deps \<Rightarrow> Time \<Rightarrow> int \<Rightarrow> error + string" where
  "generateToken deps now userID =
     (let claims = (userID, Unix (now + 3600000000000 * 24 * 7));
          jwtSecret = (if JWT_SECRET deps = [] then ''your-secret-key'' else JWT_SECRET deps)
      in SignedString deps claims jwtSecret)"

definition Service_Login :: "Deps \<Rightarrow> Time \<Rightarrow> DB \<Rightarrow> LoginRequest \<Rightarrow> error + AuthResponse" where
  "Service_Login deps now db req =
     (case QueryRow (filter (\<lambda>u. user_Email u = login_Email req) (users db)) of
        Inl err \<Rightarrow> Inl (Errorf ''invalid email or password'')
      | Inr u \<Rightarrow>
          (case CompareHashAndPassword deps (PasswordHash u) (login_Password req) of
             Some err \<Rightarrow> Inl (Errorf ''invalid email or password'')
           | None \<Rightarrow>
               (case generateToken deps now (user_ID u) of
                  Inl err \<Rightarrow> Inl (Wrapf ''failed to generate token: %w'' err)
                | Inr token \<Rightarrow> Inr \<lparr>Token = token\<rparr>)))"

section \<open>A sample store\<close>

text \<open>
  Two users, one event organised by the first of them, who attends it, and one pending
  invitation of the second user to that event. The sample primitives accept the password
  \<open>p\<close> for the hash \<open>''hash:'' @ p\<close> and sign a token by naming the user.
\<close>

definition ann :: User where
  "ann = \<lparr>user_ID = 1, user_Email = ''ann@example.com'', PasswordHash = ''hash:secret'',
          user_CreatedAt = time_Date 2026 1 1 0 0 0 0\<rparr>"

definition bob :: User where
  "bob = \<lparr>user_ID = 2, user_Email = ''bob@example.com'', PasswordHash = ''hash:hunter2'',
          user_CreatedAt = time_Date 2026 1 2 0 0 0 0\<rparr>"

definition conference :: Event where
  "conference = \<lparr>ID = 1, Title = ''Tech Conference'', Description = ''Annual conference'',
                 Date = time_Date 2030 12 15 0 0 0 0, Time = time_Date 0 1 1 9 0 0 0,
                 Location = ''Convention Center'', OrganizerID = 1,
                 CreatedAt = time_Date 2026 1 3 0 0 0 0\<rparr>"

definition ann_attends :: EventAttendee where
  "ann_attends = \<lparr>att_ID = 1, UserID = 1, EventID = 1, Role = ''organizer'',
                  Status = ''going'', att_CreatedAt = time_Date 2026 1 3 0 0 0 0\<rparr>"

definition bob_invited :: Invitation where
  "bob_invited = \<lparr>inv_ID = 1, inv_EventID = 1, InviterID = 1,
                  InviteeEmail = ''bob@example.com'', InviteeID = Some 2,
                  inv_Role = ''attendee'', inv_Status = ''pending'', Message = ''Join us'',
                  inv_CreatedAt = time_Date 2026 1 4 0 0 0 0, RespondedAt = None\<rparr>"

definition sample_db :: DB where
  "sample_db = \<lparr>users = [ann, bob], events = [conference], event_attendees = [ann_attends],
                invitations = [bob_invited], events_id_seq = 2, event_attendees_id_seq = 2\<rparr>"

definition empty_db :: DB where
  "empty_db = \<lparr>users = [], events = [], event_attendees = [], invitations = [],
               events_id_seq = 1, event_attendees_id_seq = 1\<rparr>"

definition sample_deps :: Deps where
  "sample_deps =
     \<lparr>CompareHashAndPassword =
        (\<lambda>h p. if h = ''hash:'' @ p then None
               else Some (Errorf ''hashedPassword is not the hash of the given password'')),
      SignedString = (\<lambda>(uid, exp) secret. Inr (if uid = 1 then ''token-1'' else ''token-n'')),
      JWT_SECRET = []\<rparr>"

definition sample_now :: Time where
  "sample_now = time_Date 2026 10 31 12 0 0 0"

definition location_only :: UpdateEventRequest where
  "location_only = \<lparr>upd_Title = [], upd_Description = [], upd_Date = [], upd_Time = [],
                    upd_Location = ''Room B''\<rparr>"

text \<open>
  The row that \<^verbatim>\<open>Repository.UpdateEvent\<close> writes back for the row \<open>old\<close> it has read, when
  the date and the time of the patch parse to \<open>dt\<close> and \<open>tm\<close>.
\<close>

definition patched :: "Event \<Rightarrow> UpdateEventRequest \<Rightarrow> Time \<Rightarrow> Time \<Rightarrow> Event" where
  "patched old req dt tm =
     old\<lparr>Title := (if upd_Title req \<noteq> [] then upd_Title req else Title old),
         Description := (if upd_Description req \<noteq> [] then upd_Description req
                         else Description old),
         Date := (if upd_Date req \<noteq> [] then dt else Date old),
         Time := (if upd_Time req \<noteq> [] then tm else Time old),
         Location := (if upd_Location req \<noteq> [] then upd_Location req else Location old)\<rparr>"

definition responded_db :: DB where
  "responded_db =
     sample_db\<lparr>invitations :=
       [bob_invited\<lparr>inv_Status := ''accepted'', RespondedAt := Some sample_now\<rparr>]\<rparr>"

definition joined_db :: DB where
  "joined_db =
     sample_db\<lparr>event_attendees_id_seq := 3,
               event_attendees :=
                 [ann_attends,
                  \<lparr>att_ID = 2, UserID = 2, EventID = 1, Role = ''attendee'', Status = ''going'',
                   att_CreatedAt = sample_now\<rparr>]\<rparr>"

definition invited_db :: DB where
  "invited_db =
     sample_db\<lparr>event_attendees_id_seq := 3,
               event_attendees :=
                 [ann_attends,
                  \<lparr>att_ID = 2, UserID = 2, EventID = 1, Role = ''collaborator'',
                   Status = ''going'', att_CreatedAt = sample_now\<rparr>]\<rparr>"

definition workshop_request :: CreateEventRequest where
  "workshop_request = \<lparr>req_Title = ''Workshop'', req_Description = ''Training workshop'',
                       req_Date = ''2030-01-01'', req_Time = ''10:00:00'',
                       req_Location = ''Training Room''\<rparr>"

definition workshop :: Event where
  "workshop = \<lparr>ID = 2, Title = ''Workshop'', Description = ''Training workshop'',
               Date = time_Date 2030 1 1 0 0 0 0, Time = time_Date 0 1 1 10 0 0 0,
               Location = ''Training Room'', OrganizerID = 2, CreatedAt = sample_now\<rparr>"

definition created_db :: DB where
  "created_db =
     sample_db\<lparr>events := [conference, workshop], events_id_seq := 3,
               event_attendees :=
                 [ann_attends,
                  \<lparr>att_ID = 2, UserID = 2, EventID = 2, Role = ''organizer'', Status = ''going'',
                   att_CreatedAt = sample_now\<rparr>],
               event_attendees_id_seq := 3\<rparr>"

definition past_patch :: UpdateEventRequest where
  "past_patch = \<lparr>upd_Title = [], upd_Description = [], upd_Date = ''2020-01-01'',
                 upd_Time = ''10:00:00'', upd_Location = []\<rparr>"

definition future_patch :: UpdateEventRequest where
  "future_patch = \<lparr>upd_Title = [], upd_Description = [], upd_Date = ''2030-01-01'',
                   upd_Time = ''10:00:00'', upd_Location = []\<rparr>"

definition past_date_only :: UpdateEventRequest where
  "past_date_only = \<lparr>upd_Title = [], upd_Description = [], upd_Date = ''2020-01-01'',
                     upd_Time = [], upd_Location = []\<rparr>"

lemmas sample_defs = sample_db_def ann_def bob_def conference_def ann_attends_def
  bob_invited_def sample_deps_def sample_now_def empty_db_def

section \<open>Facts about the store and the validators\<close>

lemma foldl_append_Some: "foldl append (Some xs) rows = Some (xs @ rows)"
  by (induction rows arbitrary: xs) (simp_all add: append_def)

lemma scan_rows_eq: "scan_rows rows = (if rows = [] then None else Some rows)"
  by (cases rows) (simp_all add: scan_rows_def append_def foldl_append_Some)

lemma filter_map_key:
  assumes "\<And>e. key (g e) = key e"
  shows "filter (\<lambda>e. key e = k) (map (\<lambda>e. if key e = k then g e else e) xs)
           = map g (filter (\<lambda>e. key e = k) xs)"
  using assms by (induction xs) auto

lemma GetEventByID_Inr:
  "Repository_GetEventByID db k = Inr ev \<longleftrightarrow>
     (\<exists>rest. filter (\<lambda>e. ID e = k) (events db) = ev # rest)"
  by (auto simp: Repository_GetEventByID_def QueryRow_def split: list.splits)

lemma GetInvitationByID_Inr:
  "Repository_GetInvitationByID db k = Inr i \<longleftrightarrow>
     (\<exists>rest. filter (\<lambda>i. inv_ID i = k) (invitations db) = i # rest)"
  by (auto simp: Repository_GetInvitationByID_def QueryRow_def split: list.splits)

lemma validateDateFormat_None:
  "validateDateFormat d = None \<Longrightarrow> \<exists>t. time_Parse layout_date d = Inr t"
  by (auto simp: validateDateFormat_def split: sum.splits)

lemma validateTimeFormat_None:
  "validateTimeFormat d = None \<Longrightarrow> \<exists>t. time_Parse layout_time d = Inr t"
  by (auto simp: validateTimeFormat_def split: sum.splits)

lemma validateDateTime_None:
  "validateDateTime d t = None \<longleftrightarrow> validateDateFormat d = None \<and> validateTimeFormat t = None"
  by (auto simp: validateDateTime_def split: option.splits)

lemma Repository_UpdateEvent_ok:
  assumes ev: "Repository_GetEventByID db k = Inr old"
    and d: "upd_Date req \<noteq> [] \<Longrightarrow> time_Parse layout_date (upd_Date req) = Inr dt"
    and t: "upd_Time req \<noteq> [] \<Longrightarrow> time_Parse layout_time (upd_Time req) = Inr tm"
  shows "Repository_UpdateEvent k req db =
     (Inr (patched old req dt tm),
      db\<lparr>events := map (\<lambda>e. if ID e = k
                             then e\<lparr>Title := Title (patched old req dt tm),
                                    Description := Description (patched old req dt tm),
                                    Date := Date (patched old req dt tm),
                                    Time := Time (patched old req dt tm),
                                    Location := Location (patched old req dt tm)\<rparr>
                             else e) (events db)\<rparr>)"
proof -
  from ev obtain rest where f: "filter (\<lambda>e. ID e = k) (events db) = old # rest"
    by (auto simp: GetEventByID_Inr)
  show ?thesis
    using ev d t f
    by (simp add: Repository_UpdateEvent_def Let_def filter_map_key QueryRow_def patched_def)
qed

lemma Repository_DeleteEvent_ok:
  "Repository_GetEventByID db k = Inr old \<Longrightarrow> fst (Repository_DeleteEvent k db) = None"
  by (auto simp: GetEventByID_Inr Repository_DeleteEvent_def)

lemma Repository_UpdateEvent_Inr:
  assumes "Repository_UpdateEvent k req db = (Inr u, db')"
  shows "(\<exists>old. Repository_GetEventByID db k = Inr old)
       \<and> (upd_Date req \<noteq> [] \<longrightarrow> (\<exists>dt. time_Parse layout_date (upd_Date req) = Inr dt))
       \<and> (upd_Time req \<noteq> [] \<longrightarrow> (\<exists>tm. time_Parse layout_time (upd_Time req) = Inr tm))"
  using assms
  by (auto simp: Repository_UpdateEvent_def Let_def split: sum.splits if_splits)

lemma Service_UpdateEvent_Inr:
  assumes "Service_UpdateEvent now k req caller db = (Inr u, db')"
  shows "Repository_UpdateEvent k req db = (Inr u, db')"
  using assms
  by (auto simp: Service_UpdateEvent_def split: sum.splits if_splits option.splits)

lemma Service_UpdateEvent_Inl:
  assumes "Service_UpdateEvent now k req caller db = (Inl err, db')"
  shows "db' = db"
  using assms
  by (auto simp: Service_UpdateEvent_def Repository_UpdateEvent_def Let_def QueryRow_def
      Repository_GetEventByID_def filter_map_key
      split: sum.splits if_splits option.splits list.splits)

lemma insert_event_attendee_None:
  assumes "insert_event_attendee now u e role status db = (None, db')"
  shows "db' = db\<lparr>event_attendees_id_seq := event_attendees_id_seq db + 1,
                  event_attendees := event_attendees db @
                    [\<lparr>att_ID = event_attendees_id_seq db, UserID = u, EventID = e,
                      Role = role, Status = status, att_CreatedAt = now\<rparr>]\<rparr>"
  using assms by (auto simp: insert_event_attendee_def Let_def split: if_splits)

lemma insert_event_attendee_duplicate:
  assumes "\<exists>a \<in> set (event_attendees db). UserID a = u \<and> EventID a = e"
    and "role \<in> set [''organizer'', ''attendee'', ''collaborator'']"
    and "status \<in> set [''going'', ''maybe'', ''not_going'']"
  shows "insert_event_attendee now u e role status db
           = (Some (PgError unique_violation),
              db\<lparr>event_attendees_id_seq := event_attendees_id_seq db + 1\<rparr>)"
  using assms by (auto simp: insert_event_attendee_def Let_def)

lemma insert_event_Inr:
  assumes "insert_event now e db = (Inr row, db')"
  shows "row = e\<lparr>ID := events_id_seq db, CreatedAt := now\<rparr>
       \<and> db' = db\<lparr>events_id_seq := events_id_seq db + 1, events := events db @ [row]\<rparr>"
  using assms by (auto simp: insert_event_def Let_def split: if_splits)

lemma parse_date_sample: "time_Parse layout_date ''2030-01-01'' = Inr (time_Date 2030 1 1 0 0 0 0)"
  by code_simp

lemma parse_time_sample: "time_Parse layout_time ''10:00:00'' = Inr (time_Date 0 1 1 10 0 0 0)"
  by code_simp

lemma parse_datetime_sample:
  "time_Parse layout_datetime ''2030-01-01 10:00:00'' = Inr (time_Date 2030 1 1 10 0 0 0)"
  by code_simp

lemma validateFutureEvent_None:
  "validateFutureEvent now d t = None \<longleftrightarrow>
     (\<exists>T. time_Parse layout_datetime (d @ '' '' @ t) = Inr T \<and> now \<le> T)"
  by (auto simp: validateFutureEvent_def Before_def split: sum.splits)

lemma validateFutureEvent_past:
  "time_Parse layout_datetime (d @ '' '' @ t) = Inr T \<Longrightarrow> T < now \<Longrightarrow>
     validateFutureEvent now d t = Some (Errorf ''event date and time must be in the future'')"
  by (simp add: validateFutureEvent_def Before_def)

lemma ORDER_BY_DESC_Nil: "ORDER_BY_DESC key [] = []"
  by (simp add: ORDER_BY_DESC_def)

subsection \<open>A date and a time that parse also parse together\<close>

lemma skip_append:
  "CHR '' '' \<notin> set p \<Longrightarrow> skip v p = Some v' \<Longrightarrow> skip (v @ w) p = Some (v' @ w)"
proof (induction p arbitrary: v)
  case Nil
  then show ?case by simp
next
  case (Cons c cs)
  then show ?case by (cases v) (auto split: if_splits)
qed

lemma getnum_fixed_append:
  "getnum v True = Some (n, v') \<Longrightarrow> getnum (v @ w) True = Some (n, v' @ w)"
  by (auto simp: getnum_def isDigit_def nth_append split: if_splits)

lemma parse_chunk_year_append:
  assumes "parse_chunk stdLongYear f v = Some (f', v')"
  shows "parse_chunk stdLongYear f (v @ w) = Some (f', v' @ w)"
  using assms
  by (auto simp: parse_chunk_def isDigit_def nth_append split: if_splits)

lemma parse_chunk_month_append:
  assumes "parse_chunk stdZeroMonth f v = Some (f', v')"
  shows "parse_chunk stdZeroMonth f (v @ w) = Some (f', v' @ w)"
proof -
  from assms obtain n where g: "getnum v True = Some (n, v')"
    and r: "\<not> (n \<le> 0 \<or> 12 < n)" and f': "f' = f\<lparr>f_month := n\<rparr>"
    by (auto simp: parse_chunk_def split: option.splits if_splits)
  from getnum_fixed_append [OF g, of w] r f' show ?thesis
    by (simp add: parse_chunk_def)
qed

lemma parse_chunk_day_append:
  assumes "parse_chunk stdZeroDay f v = Some (f', v')"
  shows "parse_chunk stdZeroDay f (v @ w) = Some (f', v' @ w)"
proof -
  from assms obtain n where g: "getnum v True = Some (n, v')"
    and f': "f' = f\<lparr>f_day := n\<rparr>"
    by (auto simp: parse_chunk_def split: option.splits if_splits)
  from getnum_fixed_append [OF g, of w] f' show ?thesis
    by (simp add: parse_chunk_def)
qed

lemma parse_chunk_date_append:
  assumes "s = stdLongYear \<or> s = stdZeroMonth \<or> s = stdZeroDay"
    and "parse_chunk s f v = Some (f', v')"
  shows "parse_chunk s f (v @ w) = Some (f', v' @ w)"
  using assms parse_chunk_year_append parse_chunk_month_append parse_chunk_day_append
  by blast

lemma parse_chunk_hour_fields:
  assumes "parse_chunk stdHour f v = Some (f', v')"
  shows "\<exists>g'. parse_chunk stdHour g v = Some (g', v')
            \<and> f_year g' = f_year g \<and> f_month g' = f_month g \<and> f_day g' = f_day g"
proof -
  from assms obtain n where g: "getnum v False = Some (n, v')" and r: "\<not> (n < 0 \<or> 24 \<le> n)"
    by (auto simp: parse_chunk_def split: option.splits if_splits)
  then have "parse_chunk stdHour g v = Some (g\<lparr>f_hour := n\<rparr>, v')"
    by (simp add: parse_chunk_def)
  then show ?thesis by simp
qed

lemma parse_chunk_minute_fields:
  assumes "parse_chunk stdZeroMinute f v = Some (f', v')"
  shows "\<exists>g'. parse_chunk stdZeroMinute g v = Some (g', v')
            \<and> f_year g' = f_year g \<and> f_month g' = f_month g \<and> f_day g' = f_day g"
proof -
  from assms obtain n where g: "getnum v True = Some (n, v')" and r: "\<not> (n < 0 \<or> 60 \<le> n)"
    by (auto simp: parse_chunk_def split: option.splits if_splits)
  then have "parse_chunk stdZeroMinute g v = Some (g\<lparr>f_min := n\<rparr>, v')"
    by (simp add: parse_chunk_def)
  then show ?thesis by simp
qed

lemma parse_chunk_second_fields:
  assumes "parse_chunk stdZeroSecond f v = Some (f', v')"
  shows "\<exists>g'. parse_chunk stdZeroSecond g v = Some (g', v')
            \<and> f_year g' = f_year g \<and> f_month g' = f_month g \<and> f_day g' = f_day g"
proof -
  from assms obtain n v1 where g: "getnum v True = Some (n, v1)" and r: "\<not> (n < 0 \<or> 60 \<le> n)"
    by (auto simp: parse_chunk_def split: option.splits if_splits)
  define frac where "frac = (2 \<le> length v1 \<and> commaOrPeriod (v1 ! 0) \<and> isDigit v1 1)"
  define k where "k = 2 + length (takeWhile isDigitChar (drop 2 v1))"
  have eq: "parse_chunk stdZeroSecond h v =
              (if frac then Some (h\<lparr>f_sec := n, f_nsec := parseNanoseconds v1 k\<rparr>, drop k v1)
               else Some (h\<lparr>f_sec := n\<rparr>, v1))" for h
    unfolding frac_def k_def using g r by (simp add: parse_chunk_def Let_def)
  show ?thesis
  proof (cases frac)
    case True
    with assms eq [of f] have "v' = drop k v1" by simp
    with True eq [of g] show ?thesis by simp
  next
    case False
    with assms eq [of f] have "v' = v1" by simp
    with False eq [of g] show ?thesis by simp
  qed
qed

lemma parse_chunk_time_fields:
  assumes "s = stdHour \<or> s = stdZeroMinute \<or> s = stdZeroSecond"
    and "parse_chunk s f v = Some (f', v')"
  shows "\<exists>g'. parse_chunk s g v = Some (g', v')
            \<and> f_year g' = f_year g \<and> f_month g' = f_month g \<and> f_day g' = f_day g"
  using assms parse_chunk_hour_fields parse_chunk_minute_fields parse_chunk_second_fields
  by blast

lemma parse_loop_date_append:
  assumes "\<forall>(p, s) \<in> set l. CHR '' '' \<notin> set p
             \<and> (s = stdLongYear \<or> s = stdZeroMonth \<or> s = stdZeroDay)"
    and "parse_loop l f v = Some f'"
  shows "parse_loop (l @ rest) f (v @ w) = parse_loop rest f' w"
  using assms
proof (induction l arbitrary: f v)
  case Nil
  then show ?case by (simp split: if_splits)
next
  case (Cons c l)
  obtain p s where c: "c = (p, s)" by (cases c)
  from Cons.prems(2) c obtain v1 f1 v2
    where sk: "skip v p = Some v1" and ch: "parse_chunk s f v1 = Some (f1, v2)"
      and lp: "parse_loop l f1 v2 = Some f'"
    by (auto split: option.splits)
  from Cons.prems(1) c have ns: "CHR '' '' \<notin> set p"
    and kind: "s = stdLongYear \<or> s = stdZeroMonth \<or> s = stdZeroDay"
    and rest: "\<forall>(p, s) \<in> set l. CHR '' '' \<notin> set p
             \<and> (s = stdLongYear \<or> s = stdZeroMonth \<or> s = stdZeroDay)"
    by simp_all
  have "skip (v @ w) p = Some (v1 @ w)" using ns sk by (rule skip_append)
  moreover have "parse_chunk s f (v1 @ w) = Some (f1, v2 @ w)"
    using kind ch by (rule parse_chunk_date_append)
  moreover have "parse_loop (l @ rest) f1 (v2 @ w) = parse_loop rest f' w"
    using rest lp by (rule Cons.IH)
  ultimately show ?case by (simp add: c)
qed

lemma parse_loop_time_fields:
  assumes "\<forall>(p, s) \<in> set l. s = stdHour \<or> s = stdZeroMinute \<or> s = stdZeroSecond"
    and "parse_loop l f v = Some f'"
  shows "\<exists>g'. parse_loop l g v = Some g'
        \<and> f_year g' = f_year g \<and> f_month g' = f_month g \<and> f_day g' = f_day g"
  using assms
proof (induction l arbitrary: f g v)
  case Nil
  then show ?case by (simp split: if_splits)
next
  case (Cons c l)
  obtain p s where c: "c = (p, s)" by (cases c)
  from Cons.prems(2) c obtain v1 f1 v2
    where sk: "skip v p = Some v1" and ch: "parse_chunk s f v1 = Some (f1, v2)"
      and lp: "parse_loop l f1 v2 = Some f'"
    by (auto split: option.splits)
  from Cons.prems(1) c have kind: "s = stdHour \<or> s = stdZeroMinute \<or> s = stdZeroSecond"
    and rest: "\<forall>(p, s) \<in> set l. s = stdHour \<or> s = stdZeroMinute \<or> s = stdZeroSecond"
    by simp_all
  from parse_chunk_time_fields [OF kind ch, of g] obtain g1
    where g1: "parse_chunk s g v1 = Some (g1, v2)"
      and keep1: "f_year g1 = f_year g" "f_month g1 = f_month g" "f_day g1 = f_day g"
    by blast
  from Cons.IH [OF rest lp, of g1] obtain g'
    where g': "parse_loop l g1 v2 = Some g'"
      and keep: "f_year g' = f_year g1" "f_month g' = f_month g1" "f_day g' = f_day g1"
    by blast
  show ?case using sk g1 g' keep keep1 by (simp add: c)
qed

lemma time_starts_with_digit:
  assumes "parse_loop layout_time f t = Some f'"
  shows "cutspace t = t"
proof -
  from assms have "parse_chunk stdHour f t \<noteq> None"
    by (auto simp: layout_time_def split: option.splits)
  then have "getnum t False \<noteq> None"
    by (auto simp: parse_chunk_def split: option.splits)
  then have "isDigit t 0"
    by (auto simp: getnum_def split: if_splits)
  then obtain c cs where t: "t = c # cs" and c: "isDigitChar c"
    by (cases t) (auto simp: isDigit_def)
  from c have "c \<noteq> CHR '' ''" by (auto simp: isDigitChar_def)
  then show ?thesis by (simp add: t cutspace_def)
qed

lemma time_Parse_Inr:
  "time_Parse l v = Inr T \<Longrightarrow>
     \<exists>f. parse_loop l \<lparr>f_year = 0, f_month = -1, f_day = -1, f_hour = 0, f_min = 0,
                        f_sec = 0, f_nsec = 0\<rparr> v = Some f
        \<and> \<not> ((if f_day f < 0 then 1 else f_day f) < 1
             \<or> daysIn (if f_month f < 0 then 1 else f_month f) (f_year f)
                 < (if f_day f < 0 then 1 else f_day f))"
  unfolding time_Parse_def Let_def
  by (cases "parse_loop l \<lparr>f_year = 0, f_month = -1, f_day = -1, f_hour = 0, f_min = 0,
                        f_sec = 0, f_nsec = 0\<rparr> v") (simp_all split: if_splits)

lemma space_then_time:
  assumes "cutspace t = t"
  shows "parse_loop (('' '', s) # rest) f ('' '' @ t) = parse_loop (([], s) # rest) f t"
  using assms by (simp add: cutspace_def)

lemma combined_parse:
  assumes d: "time_Parse layout_date date = Inr a"
    and t: "time_Parse layout_time timeStr = Inr b"
  shows "\<exists>T. time_Parse layout_datetime (date @ '' '' @ timeStr) = Inr T"
proof -
  define f0 where "f0 = \<lparr>f_year = 0, f_month = -1, f_day = -1, f_hour = 0, f_min = 0,
                         f_sec = 0, f_nsec = (0::int)\<rparr>"
  define tail where "tail = [('':'', stdZeroMinute), ('':'', stdZeroSecond)]"
  from time_Parse_Inr [OF d] obtain fd where fd: "parse_loop layout_date f0 date = Some fd"
    and day: "\<not> ((if f_day fd < 0 then 1 else f_day fd) < 1
               \<or> daysIn (if f_month fd < 0 then 1 else f_month fd) (f_year fd)
                   < (if f_day fd < 0 then 1 else f_day fd))"
    unfolding f0_def by blast
  from time_Parse_Inr [OF t] obtain ft where ft: "parse_loop layout_time f0 timeStr = Some ft"
    unfolding f0_def by blast
  have dl: "\<forall>(p, s) \<in> set layout_date. CHR '' '' \<notin> set p
             \<and> (s = stdLongYear \<or> s = stdZeroMonth \<or> s = stdZeroDay)"
    by (simp add: layout_date_def)
  have tl: "\<forall>(p, s) \<in> set layout_time. s = stdHour \<or> s = stdZeroMinute \<or> s = stdZeroSecond"
    by (simp add: layout_time_def)
  have lt: "layout_time = ([], stdHour) # tail"
    by (simp add: layout_time_def tail_def)
  have split: "layout_datetime = layout_date @ (('' '', stdHour) # tail)"
    by (simp add: layout_datetime_def layout_date_def tail_def)
  have "parse_loop layout_datetime f0 (date @ '' '' @ timeStr)
          = parse_loop (('' '', stdHour) # tail) fd ('' '' @ timeStr)"
    unfolding split using dl fd by (rule parse_loop_date_append)
  also have "\<dots> = parse_loop (([], stdHour) # tail) fd timeStr"
    using time_starts_with_digit [OF ft] by (rule space_then_time)
  finally have eq: "parse_loop layout_datetime f0 (date @ '' '' @ timeStr)
                      = parse_loop layout_time fd timeStr"
    by (simp only: lt)
  from parse_loop_time_fields [OF tl ft, of fd] obtain g
    where g: "parse_loop layout_time fd timeStr = Some g"
      and keep: "f_year g = f_year fd" "f_month g = f_month fd" "f_day g = f_day fd"
    by blast
  have "parse_loop layout_datetime f0 (date @ '' '' @ timeStr) = Some g"
    using eq g by simp
  then show ?thesis
    using keep day unfolding time_Parse_def Let_def f0_def by (simp split: if_splits)
qed

subsection \<open>What the future check of create lets through\<close>

lemma create_event_rejects_the_past:
  assumes p: "time_Parse layout_datetime (req_Date req @ '' '' @ req_Time req) = Inr T"
    and b: "T < now"
  shows "\<exists>err. Service_CreateEvent now req organizerID db = (Inl err, db)"
proof -
  have f: "validateFutureEvent now (req_Date req) (req_Time req)
             = Some (Errorf ''event date and time must be in the future'')"
    using p b by (rule validateFutureEvent_past)
  show ?thesis
  proof (cases "validateCreateRequest req")
    case (Some err)
    then show ?thesis by (simp add: Service_CreateEvent_def)
  next
    case None
    show ?thesis
    proof (cases "validateDateTime (req_Date req) (req_Time req)")
      case (Some err)
      with None show ?thesis by (simp add: Service_CreateEvent_def)
    next
      case v: None
      with None f show ?thesis by (simp add: Service_CreateEvent_def)
    qed
  qed
qed

lemma create_event_not_before_now:
  assumes "Service_CreateEvent now req organizerID db = (Inr event, db')"
  shows "validateCreateRequest req = None
       \<and> validateDateTime (req_Date req) (req_Time req) = None
       \<and> (\<exists>T. time_Parse layout_datetime (req_Date req @ '' '' @ req_Time req) = Inr T
              \<and> now \<le> T)"
proof -
  from assms have "validateCreateRequest req = None"
    and "validateDateTime (req_Date req) (req_Time req) = None"
    and "validateFutureEvent now (req_Date req) (req_Time req) = None"
    by (auto simp: Service_CreateEvent_def split: option.splits)
  then show ?thesis by (simp add: validateFutureEvent_None)
qed

section \<open>Only the organizer updates or deletes an event\<close>

text \<open>
  C1. For an event of the store (its key is positive, as a \<^verbatim>\<open>SERIAL\<close> key is) and any
  caller: when the caller is not the organizer of the event, \<^verbatim>\<open>UpdateEvent\<close> and
  \<^verbatim>\<open>DeleteEvent\<close> fail with the errors \<^verbatim>\<open>you are not authorized to update this event\<close> and
  \<^verbatim>\<open>you are not authorized to delete this event\<close> and leave the store as it was. When the
  caller is the organizer, \<^verbatim>\<open>DeleteEvent\<close> succeeds, \<^verbatim>\<open>UpdateEvent\<close> never returns the
  authorization error, and it succeeds when the date and time of the patch pass their
  validation.
\<close>

theorem organizer_only_update_delete:
  assumes pos: "0 < eventID" and ev: "Repository_GetEventByID db eventID = Inr event"
  shows "(OrganizerID event \<noteq> callerID \<longrightarrow>
            Service_UpdateEvent now eventID req callerID db
              = (Inl (Errorf ''you are not authorized to update this event''), db)
          \<and> Service_DeleteEvent eventID callerID db
              = (Some (Errorf ''you are not authorized to delete this event''), db))
       \<and> (OrganizerID event = callerID \<longrightarrow>
            fst (Service_DeleteEvent eventID callerID db) = None
          \<and> fst (Service_UpdateEvent now eventID req callerID db)
              \<noteq> Inl (Errorf ''you are not authorized to update this event'')
          \<and> ((upd_Date req \<noteq> [] \<longrightarrow> validateDateFormat (upd_Date req) = None)
             \<and> (upd_Time req \<noteq> [] \<longrightarrow> validateTimeFormat (upd_Time req) = None)
             \<and> (upd_Date req \<noteq> [] \<and> upd_Time req \<noteq> [] \<longrightarrow>
                  validateFutureEvent now (upd_Date req) (upd_Time req) = None)
             \<longrightarrow> (\<exists>updated. fst (Service_UpdateEvent now eventID req callerID db)
                               = Inr updated)))"
proof (intro conjI impI)
  assume "OrganizerID event \<noteq> callerID"
  then show "Service_UpdateEvent now eventID req callerID db
              = (Inl (Errorf ''you are not authorized to update this event''), db)"
    using pos ev by (simp add: Service_UpdateEvent_def)
next
  assume "OrganizerID event \<noteq> callerID"
  then show "Service_DeleteEvent eventID callerID db
              = (Some (Errorf ''you are not authorized to delete this event''), db)"
    using pos ev by (simp add: Service_DeleteEvent_def)
next
  assume "OrganizerID event = callerID"
  then show "fst (Service_DeleteEvent eventID callerID db) = None"
    using pos ev by (simp add: Service_DeleteEvent_def Repository_DeleteEvent_ok)
next
  assume org: "OrganizerID event = callerID"
  from ev obtain rest where f: "filter (\<lambda>e. ID e = eventID) (events db) = event # rest"
    by (auto simp: GetEventByID_Inr)
  show "fst (Service_UpdateEvent now eventID req callerID db)
          \<noteq> Inl (Errorf ''you are not authorized to update this event'')"
    using pos ev org f
    by (auto simp: Service_UpdateEvent_def Repository_UpdateEvent_def validateDateTime_def
        validateFutureEvent_def validateDateFormat_def validateTimeFormat_def Let_def
        QueryRow_def filter_map_key
        split: option.splits sum.splits if_splits)
next
  assume org: "OrganizerID event = callerID"
  assume pre: "(upd_Date req \<noteq> [] \<longrightarrow> validateDateFormat (upd_Date req) = None)
             \<and> (upd_Time req \<noteq> [] \<longrightarrow> validateTimeFormat (upd_Time req) = None)
             \<and> (upd_Date req \<noteq> [] \<and> upd_Time req \<noteq> [] \<longrightarrow>
                  validateFutureEvent now (upd_Date req) (upd_Time req) = None)"
  obtain dt where dt: "upd_Date req \<noteq> [] \<Longrightarrow> time_Parse layout_date (upd_Date req) = Inr dt"
    using pre validateDateFormat_None by (cases "upd_Date req = []") blast+
  obtain tm where tm: "upd_Time req \<noteq> [] \<Longrightarrow> time_Parse layout_time (upd_Time req) = Inr tm"
    using pre validateTimeFormat_None by (cases "upd_Time req = []") blast+
  have "(if upd_Date req \<noteq> [] \<and> upd_Time req \<noteq> [] then
           (case validateDateTime (upd_Date req) (upd_Time req) of
              Some err \<Rightarrow> Some err
            | None \<Rightarrow> validateFutureEvent now (upd_Date req) (upd_Time req))
         else if upd_Date req \<noteq> [] then validateDateFormat (upd_Date req)
         else if upd_Time req \<noteq> [] then validateTimeFormat (upd_Time req)
         else None) = None"
    using pre by (simp add: validateDateTime_def)
  then show "\<exists>updated. fst (Service_UpdateEvent now eventID req callerID db) = Inr updated"
    using pos ev org Repository_UpdateEvent_ok [OF ev dt tm]
    by (simp add: Service_UpdateEvent_def)
qed

theorem organizer_only_update_delete_witness:
  "(0::int) < 1 \<and> Repository_GetEventByID sample_db 1 = Inr conference
   \<and> OrganizerID conference \<noteq> 2
   \<and> Service_UpdateEvent sample_now 1 location_only 2 sample_db
        = (Inl (Errorf ''you are not authorized to update this event''), sample_db)
   \<and> Service_DeleteEvent 1 2 sample_db
        = (Some (Errorf ''you are not authorized to delete this event''), sample_db)
   \<and> OrganizerID conference = 1
   \<and> fst (Service_DeleteEvent 1 1 sample_db) = None
   \<and> (\<exists>updated. fst (Service_UpdateEvent sample_now 1 location_only 1 sample_db)
                   = Inr updated)"
proof -
  have pos: "(0::int) < 1" by simp
  have ev: "Repository_GetEventByID sample_db 1 = Inr conference"
    by (simp add: Repository_GetEventByID_def QueryRow_def sample_db_def conference_def)
  have org: "OrganizerID conference = 1" by (simp add: conference_def)
  note other = organizer_only_update_delete [OF pos ev, of 2 sample_now location_only]
  note owner = organizer_only_update_delete [OF pos ev, of 1 sample_now location_only]
  show ?thesis using ev org other owner by (simp add: location_only_def)
qed

section \<open>An invitation is answered once\<close>

text \<open>
  C2. \<^verbatim>\<open>RespondToInvitation\<close> fails, and changes nothing, whenever the stored status of the
  invitation is not \<^verbatim>\<open>pending\<close>; for the invitee and a well-formed answer the error is
  \<^verbatim>\<open>invitation has already been responded to\<close>. When it succeeds, the invitation was
  pending, the answer is \<^verbatim>\<open>accepted\<close> or \<^verbatim>\<open>declined\<close>, the only change to the store is the
  status and the responded-at time of that invitation (no attendee row is created, also
  on acceptance), and every later answer to the same invitation fails.
\<close>

theorem respond_only_once:
  "(\<forall>inv. Repository_GetInvitationByID db invitationID = Inr inv
           \<and> inv_Status inv \<noteq> ''pending'' \<longrightarrow>
       (\<exists>err. Service_RespondToInvitation now invitationID status userEmail db = (Some err, db))
       \<and> ((status = ''accepted'' \<or> status = ''declined'') \<and> InviteeEmail inv = userEmail \<longrightarrow>
            Service_RespondToInvitation now invitationID status userEmail db
              = (Some (Errorf ''invitation has already been responded to''), db)))
   \<and> (\<forall>db'. Service_RespondToInvitation now invitationID status userEmail db = (None, db') \<longrightarrow>
        (\<exists>inv. Repository_GetInvitationByID db invitationID = Inr inv
               \<and> inv_Status inv = ''pending'')
        \<and> (status = ''accepted'' \<or> status = ''declined'')
        \<and> db' = db\<lparr>invitations :=
                      map (\<lambda>i. if inv_ID i = invitationID
                                then i\<lparr>inv_Status := status, RespondedAt := Some now\<rparr> else i)
                          (invitations db)\<rparr>
        \<and> event_attendees db' = event_attendees db
        \<and> (\<forall>now' status' userEmail'.
              fst (Service_RespondToInvitation now' invitationID status' userEmail' db') \<noteq> None))"
proof (intro conjI allI impI)
  fix inv
  assume a: "Repository_GetInvitationByID db invitationID = Inr inv \<and> inv_Status inv \<noteq> ''pending''"
  then show "\<exists>err. Service_RespondToInvitation now invitationID status userEmail db = (Some err, db)"
    by (simp add: Service_RespondToInvitation_def)
  assume "(status = ''accepted'' \<or> status = ''declined'') \<and> InviteeEmail inv = userEmail"
  with a show "Service_RespondToInvitation now invitationID status userEmail db
              = (Some (Errorf ''invitation has already been responded to''), db)"
    by (auto simp add: Service_RespondToInvitation_def)
next
  fix db'
  assume ok: "Service_RespondToInvitation now invitationID status userEmail db = (None, db')"
  then obtain inv where inv: "Repository_GetInvitationByID db invitationID = Inr inv"
      and pending: "inv_Status inv = ''pending''"
      and st: "status = ''accepted'' \<or> status = ''declined''"
      and db': "db' = db\<lparr>invitations :=
                      map (\<lambda>i. if inv_ID i = invitationID
                                then i\<lparr>inv_Status := status, RespondedAt := Some now\<rparr> else i)
                          (invitations db)\<rparr>"
    by (auto simp: Service_RespondToInvitation_def Repository_UpdateInvitationStatus_def
        split: if_splits sum.splits)
  show "\<exists>inv. Repository_GetInvitationByID db invitationID = Inr inv \<and> inv_Status inv = ''pending''"
    using inv pending by blast
  show "status = ''accepted'' \<or> status = ''declined''" by (rule st)
  show "db' = db\<lparr>invitations :=
                      map (\<lambda>i. if inv_ID i = invitationID
                                then i\<lparr>inv_Status := status, RespondedAt := Some now\<rparr> else i)
                          (invitations db)\<rparr>" by (rule db')
  show "event_attendees db' = event_attendees db" by (simp add: db')
  fix now' status' userEmail'
  from inv obtain rest where f: "filter (\<lambda>i. inv_ID i = invitationID) (invitations db) = inv # rest"
    by (auto simp: GetInvitationByID_Inr)
  have "Repository_GetInvitationByID db' invitationID
          = Inr (inv\<lparr>inv_Status := status, RespondedAt := Some now\<rparr>)"
    by (simp add: db' Repository_GetInvitationByID_def QueryRow_def filter_map_key f)
  moreover have "status \<noteq> ''pending''" using st by auto
  ultimately show "fst (Service_RespondToInvitation now' invitationID status' userEmail' db') \<noteq> None"
    by (simp add: Service_RespondToInvitation_def)
qed

theorem respond_only_once_witness:
  "Service_RespondToInvitation sample_now 1 ''accepted'' ''bob@example.com'' sample_db
     = (None, responded_db)
   \<and> event_attendees responded_db = event_attendees sample_db
   \<and> fst (Service_RespondToInvitation sample_now 1 ''declined'' ''bob@example.com'' responded_db)
       \<noteq> None
   \<and> Repository_GetInvitationByID responded_db 1
       = Inr (bob_invited\<lparr>inv_Status := ''accepted'', RespondedAt := Some sample_now\<rparr>)
   \<and> Service_RespondToInvitation sample_now 1 ''declined'' ''bob@example.com'' responded_db
       = (Some (Errorf ''invitation has already been responded to''), responded_db)"
proof -
  have first: "Service_RespondToInvitation sample_now 1 ''accepted'' ''bob@example.com'' sample_db
     = (None, responded_db)"
    by (simp add: Service_RespondToInvitation_def Repository_GetInvitationByID_def QueryRow_def
        Repository_UpdateInvitationStatus_def responded_db_def sample_db_def bob_invited_def)
  have stored: "Repository_GetInvitationByID responded_db 1
       = Inr (bob_invited\<lparr>inv_Status := ''accepted'', RespondedAt := Some sample_now\<rparr>)"
    by (simp add: Repository_GetInvitationByID_def QueryRow_def responded_db_def sample_db_def
        bob_invited_def)
  have facts: "inv_Status (bob_invited\<lparr>inv_Status := ''accepted'', RespondedAt := Some sample_now\<rparr>)
                 \<noteq> ''pending''"
    "InviteeEmail (bob_invited\<lparr>inv_Status := ''accepted'', RespondedAt := Some sample_now\<rparr>)
       = ''bob@example.com''"
    by (simp_all add: bob_invited_def)
  note once = respond_only_once [of sample_db 1 sample_now "''accepted''" "''bob@example.com''"]
  note again = respond_only_once [of responded_db 1 sample_now "''declined''" "''bob@example.com''"]
  show ?thesis using first stored facts once again by simp
qed

section \<open>A patch changes only the fields it fills in\<close>

text \<open>
  C4. When \<^verbatim>\<open>UpdateEvent\<close> succeeds, the row it returns is the row now stored under the
  key; each of title, description, date, time and location whose patch value is the empty
  string has the value it had before, and each other one has the value of the patch (for
  date and time, the parsed value). Key, organizer and creation time are kept, and the rows
  of other events are rows of the store before. So a patch with a location only leaves
  title, date and time as they were.
\<close>

theorem update_keeps_fields_left_empty:
  assumes upd: "Service_UpdateEvent now eventID req callerID db = (Inr updated, db')"
  shows "\<exists>old. Repository_GetEventByID db eventID = Inr old
     \<and> Repository_GetEventByID db' eventID = Inr updated
     \<and> (upd_Title req = [] \<longrightarrow> Title updated = Title old)
     \<and> (upd_Description req = [] \<longrightarrow> Description updated = Description old)
     \<and> (upd_Date req = [] \<longrightarrow> Date updated = Date old)
     \<and> (upd_Time req = [] \<longrightarrow> Time updated = Time old)
     \<and> (upd_Location req = [] \<longrightarrow> Location updated = Location old)
     \<and> (upd_Title req \<noteq> [] \<longrightarrow> Title updated = upd_Title req)
     \<and> (upd_Description req \<noteq> [] \<longrightarrow> Description updated = upd_Description req)
     \<and> (upd_Date req \<noteq> [] \<longrightarrow> time_Parse layout_date (upd_Date req) = Inr (Date updated))
     \<and> (upd_Time req \<noteq> [] \<longrightarrow> time_Parse layout_time (upd_Time req) = Inr (Time updated))
     \<and> (upd_Location req \<noteq> [] \<longrightarrow> Location updated = upd_Location req)
     \<and> ID updated = ID old \<and> OrganizerID updated = OrganizerID old
     \<and> CreatedAt updated = CreatedAt old
     \<and> (\<forall>e \<in> set (events db'). ID e \<noteq> eventID \<longrightarrow> e \<in> set (events db))"
proof -
  have repo: "Repository_UpdateEvent eventID req db = (Inr updated, db')"
    using upd by (rule Service_UpdateEvent_Inr)
  from Repository_UpdateEvent_Inr [OF repo]
  obtain old where old: "Repository_GetEventByID db eventID = Inr old"
    and pd: "upd_Date req \<noteq> [] \<longrightarrow> (\<exists>dt. time_Parse layout_date (upd_Date req) = Inr dt)"
    and pt: "upd_Time req \<noteq> [] \<longrightarrow> (\<exists>tm. time_Parse layout_time (upd_Time req) = Inr tm)"
    by blast
  obtain dt where dt: "upd_Date req \<noteq> [] \<Longrightarrow> time_Parse layout_date (upd_Date req) = Inr dt"
    using pd by (cases "upd_Date req = []") blast+
  obtain tm where tm: "upd_Time req \<noteq> [] \<Longrightarrow> time_Parse layout_time (upd_Time req) = Inr tm"
    using pt by (cases "upd_Time req = []") blast+
  note eq = Repository_UpdateEvent_ok [OF old dt tm]
  from eq repo have u: "updated = patched old req dt tm"
    and d: "db' = db\<lparr>events := map (\<lambda>e. if ID e = eventID
                             then e\<lparr>Title := Title (patched old req dt tm),
                                    Description := Description (patched old req dt tm),
                                    Date := Date (patched old req dt tm),
                                    Time := Time (patched old req dt tm),
                                    Location := Location (patched old req dt tm)\<rparr>
                             else e) (events db)\<rparr>"
    by simp_all
  from old obtain rest where f: "filter (\<lambda>e. ID e = eventID) (events db) = old # rest"
    by (auto simp: GetEventByID_Inr)
  have stored: "Repository_GetEventByID db' eventID = Inr updated"
    by (simp add: d u Repository_GetEventByID_def QueryRow_def filter_map_key f patched_def)
  have others: "\<forall>e \<in> set (events db'). ID e \<noteq> eventID \<longrightarrow> e \<in> set (events db)"
    by (auto simp: d)
  have fields: "(upd_Title req = [] \<longrightarrow> Title updated = Title old)
     \<and> (upd_Description req = [] \<longrightarrow> Description updated = Description old)
     \<and> (upd_Date req = [] \<longrightarrow> Date updated = Date old)
     \<and> (upd_Time req = [] \<longrightarrow> Time updated = Time old)
     \<and> (upd_Location req = [] \<longrightarrow> Location updated = Location old)
     \<and> (upd_Title req \<noteq> [] \<longrightarrow> Title updated = upd_Title req)
     \<and> (upd_Description req \<noteq> [] \<longrightarrow> Description updated = upd_Description req)
     \<and> (upd_Date req \<noteq> [] \<longrightarrow> time_Parse layout_date (upd_Date req) = Inr (Date updated))
     \<and> (upd_Time req \<noteq> [] \<longrightarrow> time_Parse layout_time (upd_Time req) = Inr (Time updated))
     \<and> (upd_Location req \<noteq> [] \<longrightarrow> Location updated = upd_Location req)
     \<and> ID updated = ID old \<and> OrganizerID updated = OrganizerID old
     \<and> CreatedAt updated = CreatedAt old"
    using dt tm by (simp add: u patched_def)
  show ?thesis using old stored others fields by blast
qed

theorem update_keeps_fields_left_empty_witness:
  "Service_UpdateEvent sample_now 1 location_only 1 sample_db
     = (Inr (conference\<lparr>Location := ''Room B''\<rparr>),
        sample_db\<lparr>events := [conference\<lparr>Location := ''Room B''\<rparr>]\<rparr>)
   \<and> (\<exists>old. Repository_GetEventByID sample_db 1 = Inr old
         \<and> Title (conference\<lparr>Location := ''Room B''\<rparr>) = Title old
         \<and> Date (conference\<lparr>Location := ''Room B''\<rparr>) = Date old
         \<and> Time (conference\<lparr>Location := ''Room B''\<rparr>) = Time old
         \<and> Location (conference\<lparr>Location := ''Room B''\<rparr>) = ''Room B'')"
proof -
  have run: "Service_UpdateEvent sample_now 1 location_only 1 sample_db
     = (Inr (conference\<lparr>Location := ''Room B''\<rparr>),
        sample_db\<lparr>events := [conference\<lparr>Location := ''Room B''\<rparr>]\<rparr>)"
    by (simp add: Service_UpdateEvent_def Repository_UpdateEvent_def Repository_GetEventByID_def
        QueryRow_def Let_def location_only_def sample_db_def conference_def)
  have empty: "upd_Title location_only = []" "upd_Date location_only = []"
    "upd_Time location_only = []" "upd_Location location_only = ''Room B''"
    by (simp_all add: location_only_def)
  from update_keeps_fields_left_empty [OF run] empty run show ?thesis by auto
qed

section \<open>Joining an event, and joining it again\<close>

text \<open>
  C6. For positive user and event keys, \<^verbatim>\<open>JoinEvent\<close> on an event that the store does not
  have fails with \<^verbatim>\<open>event not found\<close>. When it succeeds it has appended one attendee row
  for the pair, with role \<^verbatim>\<open>attendee\<close> and status \<^verbatim>\<open>going\<close>; a second \<^verbatim>\<open>JoinEvent\<close> of the
  same user for the same event then fails with the wrapped unique-constraint error of the
  store and adds no row.
\<close>

theorem join_event_once:
  "(0 < userID \<and> 0 < eventID \<and> \<not> (\<exists>e \<in> set (events db). ID e = eventID) \<longrightarrow>
      Service_JoinEvent now userID eventID db = (Some (Errorf ''event not found''), db))
   \<and> (\<forall>db'. Service_JoinEvent now userID eventID db = (None, db') \<longrightarrow>
        event_attendees db' = event_attendees db @
          [\<lparr>att_ID = event_attendees_id_seq db, UserID = userID, EventID = eventID,
            Role = ''attendee'', Status = ''going'', att_CreatedAt = now\<rparr>]
        \<and> (\<forall>now'. fst (Service_JoinEvent now' userID eventID db')
                      = Some (Wrapf ''failed to join event: %w'' (PgError unique_violation))
                  \<and> event_attendees (snd (Service_JoinEvent now' userID eventID db'))
                      = event_attendees db'))"
proof (intro conjI allI impI)
  assume a: "0 < userID \<and> 0 < eventID \<and> \<not> (\<exists>e \<in> set (events db). ID e = eventID)"
  then have "filter (\<lambda>e. ID e = eventID) (events db) = []"
    by (simp add: filter_empty_conv)
  with a show "Service_JoinEvent now userID eventID db = (Some (Errorf ''event not found''), db)"
    by (simp add: Service_JoinEvent_def Repository_GetEventByID_def QueryRow_def)
next
  fix db'
  assume ok: "Service_JoinEvent now userID eventID db = (None, db')"
  then obtain ev where pos: "0 < userID" "0 < eventID"
    and ev: "Repository_GetEventByID db eventID = Inr ev"
    and ins: "insert_event_attendee now userID eventID ''attendee'' ''going'' db = (None, db')"
    by (auto simp: Service_JoinEvent_def Repository_JoinEvent_def
        split: if_splits sum.splits option.splits prod.splits)
  note db' = insert_event_attendee_None [OF ins]
  show row: "event_attendees db' = event_attendees db @
          [\<lparr>att_ID = event_attendees_id_seq db, UserID = userID, EventID = eventID,
            Role = ''attendee'', Status = ''going'', att_CreatedAt = now\<rparr>]"
    by (simp add: db')
  fix now'
  have ev': "Repository_GetEventByID db' eventID = Inr ev"
    using ev by (simp add: db' Repository_GetEventByID_def)
  have dup: "\<exists>a \<in> set (event_attendees db'). UserID a = userID \<and> EventID a = eventID"
    by (simp add: row)
  have again: "insert_event_attendee now' userID eventID ''attendee'' ''going'' db'
           = (Some (PgError unique_violation),
              db'\<lparr>event_attendees_id_seq := event_attendees_id_seq db' + 1\<rparr>)"
    by (rule insert_event_attendee_duplicate [OF dup]) simp_all
  have second: "Service_JoinEvent now' userID eventID db'
          = (Some (Wrapf ''failed to join event: %w'' (PgError unique_violation)),
             db'\<lparr>event_attendees_id_seq := event_attendees_id_seq db' + 1\<rparr>)"
    using pos ev' again by (simp add: Service_JoinEvent_def Repository_JoinEvent_def)
  show "fst (Service_JoinEvent now' userID eventID db')
          = Some (Wrapf ''failed to join event: %w'' (PgError unique_violation))"
    by (simp add: second)
  show "event_attendees (snd (Service_JoinEvent now' userID eventID db')) = event_attendees db'"
    by (simp add: second)
qed

theorem join_event_once_witness:
  "(0::int) < 2 \<and> (0::int) < 7 \<and> \<not> (\<exists>e \<in> set (events sample_db). ID e = 7)
   \<and> Service_JoinEvent sample_now 2 7 sample_db = (Some (Errorf ''event not found''), sample_db)
   \<and> Service_JoinEvent sample_now 2 1 sample_db = (None, joined_db)
   \<and> event_attendees joined_db = event_attendees sample_db @
        [\<lparr>att_ID = 2, UserID = 2, EventID = 1, Role = ''attendee'', Status = ''going'',
          att_CreatedAt = sample_now\<rparr>]
   \<and> fst (Service_JoinEvent sample_now 2 1 joined_db)
       = Some (Wrapf ''failed to join event: %w'' (PgError unique_violation))"
proof -
  have absent: "\<not> (\<exists>e \<in> set (events sample_db). ID e = 7)"
    by (simp add: sample_db_def conference_def)
  have first: "Service_JoinEvent sample_now 2 1 sample_db = (None, joined_db)"
    by (simp add: Service_JoinEvent_def Repository_JoinEvent_def Repository_GetEventByID_def
        QueryRow_def insert_event_attendee_def Let_def joined_db_def sample_db_def
        conference_def ann_attends_def ann_def bob_def)
  have seq: "event_attendees_id_seq sample_db = 2" by (simp add: sample_db_def)
  note missing = join_event_once [of 2 7 sample_db sample_now]
  note joined = join_event_once [of 2 1 sample_db sample_now]
  show ?thesis using absent first seq missing joined by simp
qed

section \<open>Creating an event\<close>

text \<open>
  C3. The claim is that \<^verbatim>\<open>CreateEvent\<close> fails whenever the combined date and time is at or
  before the current time. The guard of \<^verbatim>\<open>validateFutureEvent\<close> is
  \<^verbatim>\<open>eventDateTime.Before(time.Now())\<close>, which is false when the two instants are equal:
  with the clock at 2030-01-01 10:00:00 UTC, a request for 2030-01-01 10:00:00 parses to
  that very instant and \<^verbatim>\<open>CreateEvent\<close> returns the created event.
\<close>

theorem create_event_accepts_the_present_instant:
  "time_Parse layout_datetime (req_Date workshop_request @ '' '' @ req_Time workshop_request)
     = Inr (time_Date 2030 1 1 10 0 0 0)
   \<and> fst (Service_CreateEvent (time_Date 2030 1 1 10 0 0 0) workshop_request 2 sample_db)
       = Inr (workshop\<lparr>CreatedAt := time_Date 2030 1 1 10 0 0 0\<rparr>)"
proof -
  have v: "validateCreateRequest workshop_request = None"
    by (simp add: validateCreateRequest_def workshop_request_def)
  have f: "validateFutureEvent (time_Date 2030 1 1 10 0 0 0) ''2030-01-01'' ''10:00:00'' = None"
    using parse_datetime_sample
    by (simp add: validateFutureEvent_def Before_def)
  have run: "fst (Service_CreateEvent (time_Date 2030 1 1 10 0 0 0) workshop_request 2 sample_db)
       = Inr (workshop\<lparr>CreatedAt := time_Date 2030 1 1 10 0 0 0\<rparr>)"
    using v f parse_date_sample parse_time_sample
    by (simp add: Service_CreateEvent_def workshop_request_def validateDateTime_def
        validateDateFormat_def validateTimeFormat_def Repository_CreateEvent_def
        Repository_AddOrganizerAsAttendee_def insert_event_def insert_event_attendee_def
        Let_def workshop_def sample_db_def conference_def ann_attends_def
        ann_def bob_def)
  show ?thesis using run parse_datetime_sample by (simp add: workshop_request_def)
qed

text \<open>
  C8. When \<^verbatim>\<open>CreateEvent\<close> succeeds, the store has one more event row, the event
  returned (with the fields of the request, the caller as organizer and a fresh key), and
  one more attendee row: the organizer for that event, with role \<^verbatim>\<open>organizer\<close> and status
  \<^verbatim>\<open>going\<close>.
\<close>

theorem create_event_adds_organizer:
  assumes ok: "Service_CreateEvent now req organizerID db = (Inr event, db')"
  shows "events db' = events db @ [event]
       \<and> ID event = events_id_seq db \<and> OrganizerID event = organizerID
       \<and> Title event = req_Title req \<and> Description event = req_Description req
       \<and> Location event = req_Location req
       \<and> time_Parse layout_date (req_Date req) = Inr (Date event)
       \<and> time_Parse layout_time (req_Time req) = Inr (Time event)
       \<and> event_attendees db' = event_attendees db @
            [\<lparr>att_ID = event_attendees_id_seq db, UserID = organizerID, EventID = ID event,
              Role = ''organizer'', Status = ''going'', att_CreatedAt = now\<rparr>]"
proof -
  from ok obtain eventDate eventTime db1
    where d: "time_Parse layout_date (req_Date req) = Inr eventDate"
      and t: "time_Parse layout_time (req_Time req) = Inr eventTime"
      and ins: "insert_event now
                 \<lparr>ID = 0, Title = req_Title req, Description = req_Description req,
                  Date = eventDate, Time = eventTime, Location = req_Location req,
                  OrganizerID = organizerID, CreatedAt = 0\<rparr> db = (Inr event, db1)"
      and att: "insert_event_attendee now organizerID (ID event) ''organizer'' ''going'' db1
                  = (None, db')"
    by (auto simp: Service_CreateEvent_def Repository_CreateEvent_def
        Repository_AddOrganizerAsAttendee_def Let_def
        split: option.splits sum.splits prod.splits)
  note e = insert_event_Inr [OF ins]
  note a = insert_event_attendee_None [OF att]
  from e have row: "event = \<lparr>ID = events_id_seq db, Title = req_Title req,
                  Description = req_Description req,
                  Date = eventDate, Time = eventTime, Location = req_Location req,
                  OrganizerID = organizerID, CreatedAt = now\<rparr>"
    by simp
  from e have db1: "events db1 = events db @ [event]"
      "event_attendees db1 = event_attendees db"
      "event_attendees_id_seq db1 = event_attendees_id_seq db"
    by simp_all
  have "events db' = events db1"
    by (subst a) simp
  moreover have "event_attendees db' = event_attendees db1 @
            [\<lparr>att_ID = event_attendees_id_seq db1, UserID = organizerID, EventID = ID event,
              Role = ''organizer'', Status = ''going'', att_CreatedAt = now\<rparr>]"
    by (subst a) simp
  ultimately show ?thesis using d t db1 by (simp add: row)
qed

theorem create_event_adds_organizer_witness:
  "Service_CreateEvent sample_now workshop_request 2 sample_db = (Inr workshop, created_db)
   \<and> events created_db = events sample_db @ [workshop]
   \<and> OrganizerID workshop = 2
   \<and> event_attendees created_db = event_attendees sample_db @
        [\<lparr>att_ID = 2, UserID = 2, EventID = ID workshop, Role = ''organizer'',
          Status = ''going'', att_CreatedAt = sample_now\<rparr>]"
proof -
  have v: "validateCreateRequest workshop_request = None"
    by (simp add: validateCreateRequest_def workshop_request_def)
  have f: "validateFutureEvent sample_now ''2030-01-01'' ''10:00:00'' = None"
    using parse_datetime_sample
    by (simp add: validateFutureEvent_def Before_def sample_now_def time_Date_def
        daysSinceEpoch_def daysBefore_def isLeap_def)
  have run: "Service_CreateEvent sample_now workshop_request 2 sample_db
               = (Inr workshop, created_db)"
    using v f parse_date_sample parse_time_sample
    by (simp add: Service_CreateEvent_def workshop_request_def validateDateTime_def
        validateDateFormat_def validateTimeFormat_def Repository_CreateEvent_def
        Repository_AddOrganizerAsAttendee_def insert_event_def insert_event_attendee_def
        Let_def workshop_def created_db_def sample_db_def conference_def ann_attends_def
        ann_def bob_def)
  have seq: "event_attendees_id_seq sample_db = 2"
    by (simp add: sample_db_def)
  from create_event_adds_organizer [OF run] seq run show ?thesis by simp
qed

section \<open>The date and time of a patch\<close>

text \<open>
  C5, as claimed: a patch with both a date and a time is checked for its formats only,
  with no requirement that the combined date and time be in the future. It fails: for the
  organizer of the sample event, a patch with the well-formed date 2020-01-01 and time
  10:00:00 is rejected with \<^verbatim>\<open>event date and time must be in the future\<close>.
\<close>

theorem update_rejects_past_date_and_time:
  "upd_Date past_patch \<noteq> [] \<and> upd_Time past_patch \<noteq> []
   \<and> validateDateTime (upd_Date past_patch) (upd_Time past_patch) = None
   \<and> Service_UpdateEvent sample_now 1 past_patch 1 sample_db
       = (Inl (Errorf ''event date and time must be in the future''), sample_db)"
proof -
  have d: "time_Parse layout_date ''2020-01-01'' = Inr (time_Date 2020 1 1 0 0 0 0)"
    by code_simp
  have t: "time_Parse layout_time ''10:00:00'' = Inr (time_Date 0 1 1 10 0 0 0)"
    by code_simp
  have dt: "time_Parse layout_datetime ''2020-01-01 10:00:00'' = Inr (time_Date 2020 1 1 10 0 0 0)"
    by code_simp
  have before: "time_Date 2020 1 1 10 0 0 0 < sample_now"
    by (simp add: sample_now_def time_Date_def daysSinceEpoch_def daysBefore_def isLeap_def)
  have fmt: "validateDateTime ''2020-01-01'' ''10:00:00'' = None"
    using d t by (simp add: validateDateTime_def validateDateFormat_def validateTimeFormat_def)
  have fut: "validateFutureEvent sample_now ''2020-01-01'' ''10:00:00''
               = Some (Errorf ''event date and time must be in the future'')"
    using dt before by (simp add: validateFutureEvent_def Before_def)
  have ev: "Repository_GetEventByID sample_db 1 = Inr conference"
    by (simp add: Repository_GetEventByID_def QueryRow_def sample_db_def conference_def)
  show ?thesis
    using fmt fut ev
    by (simp add: Service_UpdateEvent_def past_patch_def conference_def)
qed

text \<open>
  C5, as amended. For the organizer of an existing event: a patch with both a date and a
  time fails with the format error when one of the two formats is wrong; when both are
  right and the combined date and time parses to an instant, the update fails with
  \<^verbatim>\<open>event date and time must be in the future\<close> if that instant is before the current
  time and succeeds otherwise, as on create. A patch with only a date, or only a time,
  is checked for the format of that one field and succeeds when it is right; a patch
  with neither succeeds.
\<close>

theorem update_validates_date_and_time:
  assumes pos: "0 < eventID" and ev: "Repository_GetEventByID db eventID = Inr event"
    and org: "OrganizerID event = callerID"
  shows "(upd_Date req \<noteq> [] \<and> upd_Time req \<noteq> [] \<longrightarrow>
            (\<forall>err. validateDateTime (upd_Date req) (upd_Time req) = Some err \<longrightarrow>
               Service_UpdateEvent now eventID req callerID db = (Inl err, db))
          \<and> (validateDateTime (upd_Date req) (upd_Time req) = None \<longrightarrow>
               (\<exists>T. time_Parse layout_datetime (upd_Date req @ '' '' @ upd_Time req) = Inr T
                  \<and> (T < now \<longrightarrow>
                       Service_UpdateEvent now eventID req callerID db
                         = (Inl (Errorf ''event date and time must be in the future''), db))
                  \<and> (now \<le> T \<longrightarrow>
                       (\<exists>updated. fst (Service_UpdateEvent now eventID req callerID db)
                                     = Inr updated)))))
       \<and> (upd_Date req \<noteq> [] \<and> upd_Time req = [] \<longrightarrow>
            (\<forall>err. validateDateFormat (upd_Date req) = Some err \<longrightarrow>
               Service_UpdateEvent now eventID req callerID db = (Inl err, db))
          \<and> (validateDateFormat (upd_Date req) = None \<longrightarrow>
               (\<exists>updated. fst (Service_UpdateEvent now eventID req callerID db) = Inr updated)))
       \<and> (upd_Date req = [] \<and> upd_Time req \<noteq> [] \<longrightarrow>
            (\<forall>err. validateTimeFormat (upd_Time req) = Some err \<longrightarrow>
               Service_UpdateEvent now eventID req callerID db = (Inl err, db))
          \<and> (validateTimeFormat (upd_Time req) = None \<longrightarrow>
               (\<exists>updated. fst (Service_UpdateEvent now eventID req callerID db) = Inr updated)))
       \<and> (upd_Date req = [] \<and> upd_Time req = [] \<longrightarrow>
            (\<exists>updated. fst (Service_UpdateEvent now eventID req callerID db) = Inr updated))"
proof -
  have repo: "\<exists>updated. fst (Repository_UpdateEvent eventID req db) = Inr updated"
    if vd: "upd_Date req \<noteq> [] \<longrightarrow> validateDateFormat (upd_Date req) = None"
      and vt: "upd_Time req \<noteq> [] \<longrightarrow> validateTimeFormat (upd_Time req) = None"
  proof -
    obtain dt where dt: "upd_Date req \<noteq> [] \<Longrightarrow> time_Parse layout_date (upd_Date req) = Inr dt"
      using vd validateDateFormat_None by (cases "upd_Date req = []") blast+
    obtain tm where tm: "upd_Time req \<noteq> [] \<Longrightarrow> time_Parse layout_time (upd_Time req) = Inr tm"
      using vt validateTimeFormat_None by (cases "upd_Time req = []") blast+
    show ?thesis by (simp add: Repository_UpdateEvent_ok [OF ev dt tm])
  qed
  have both_bad: "Service_UpdateEvent now eventID req callerID db = (Inl err, db)"
    if "upd_Date req \<noteq> [] \<and> upd_Time req \<noteq> []"
      and "validateDateTime (upd_Date req) (upd_Time req) = Some err" for err
    using that pos ev org by (simp add: Service_UpdateEvent_def)
  have both_past: "Service_UpdateEvent now eventID req callerID db
                    = (Inl (Errorf ''event date and time must be in the future''), db)"
    if "upd_Date req \<noteq> [] \<and> upd_Time req \<noteq> []"
      and "validateDateTime (upd_Date req) (upd_Time req) = None"
      and "time_Parse layout_datetime (upd_Date req @ '' '' @ upd_Time req) = Inr T"
      and "T < now" for T
    using that pos ev org validateFutureEvent_past [of "upd_Date req" "upd_Time req" T now]
    by (simp add: Service_UpdateEvent_def)
  have both_ok: "\<exists>updated. fst (Service_UpdateEvent now eventID req callerID db) = Inr updated"
    if b: "upd_Date req \<noteq> [] \<and> upd_Time req \<noteq> []"
      and v: "validateDateTime (upd_Date req) (upd_Time req) = None"
      and p: "time_Parse layout_datetime (upd_Date req @ '' '' @ upd_Time req) = Inr T"
      and f: "now \<le> T" for T
  proof -
    have "validateFutureEvent now (upd_Date req) (upd_Time req) = None"
      using p f by (auto simp: validateFutureEvent_None)
    moreover have "\<exists>updated. fst (Repository_UpdateEvent eventID req db) = Inr updated"
      using v by (intro repo) (simp_all add: validateDateTime_None)
    ultimately show ?thesis
      using b v pos ev org by (simp add: Service_UpdateEvent_def)
  qed
  have date_bad: "Service_UpdateEvent now eventID req callerID db = (Inl err, db)"
    if "upd_Date req \<noteq> [] \<and> upd_Time req = []"
      and "validateDateFormat (upd_Date req) = Some err" for err
    using that pos ev org by (simp add: Service_UpdateEvent_def)
  have date_ok: "\<exists>updated. fst (Service_UpdateEvent now eventID req callerID db) = Inr updated"
    if b: "upd_Date req \<noteq> [] \<and> upd_Time req = []"
      and v: "validateDateFormat (upd_Date req) = None"
  proof -
    have "\<exists>updated. fst (Repository_UpdateEvent eventID req db) = Inr updated"
      using b v by (intro repo) simp_all
    then show ?thesis using b v pos ev org by (simp add: Service_UpdateEvent_def)
  qed
  have time_bad: "Service_UpdateEvent now eventID req callerID db = (Inl err, db)"
    if "upd_Date req = [] \<and> upd_Time req \<noteq> []"
      and "validateTimeFormat (upd_Time req) = Some err" for err
    using that pos ev org by (simp add: Service_UpdateEvent_def)
  have time_ok: "\<exists>updated. fst (Service_UpdateEvent now eventID req callerID db) = Inr updated"
    if b: "upd_Date req = [] \<and> upd_Time req \<noteq> []"
      and v: "validateTimeFormat (upd_Time req) = None"
  proof -
    have "\<exists>updated. fst (Repository_UpdateEvent eventID req db) = Inr updated"
      using b v by (intro repo) simp_all
    then show ?thesis using b v pos ev org by (simp add: Service_UpdateEvent_def)
  qed
  have none: "\<exists>updated. fst (Service_UpdateEvent now eventID req callerID db) = Inr updated"
    if b: "upd_Date req = [] \<and> upd_Time req = []"
  proof -
    have "\<exists>updated. fst (Repository_UpdateEvent eventID req db) = Inr updated"
      using b by (intro repo) simp_all
    then show ?thesis using b pos ev org by (simp add: Service_UpdateEvent_def)
  qed
  have both_valid:
    "\<exists>T. time_Parse layout_datetime (upd_Date req @ '' '' @ upd_Time req) = Inr T
        \<and> (T < now \<longrightarrow>
             Service_UpdateEvent now eventID req callerID db
               = (Inl (Errorf ''event date and time must be in the future''), db))
        \<and> (now \<le> T \<longrightarrow>
             (\<exists>updated. fst (Service_UpdateEvent now eventID req callerID db) = Inr updated))"
    if b: "upd_Date req \<noteq> [] \<and> upd_Time req \<noteq> []"
      and v: "validateDateTime (upd_Date req) (upd_Time req) = None"
  proof -
    from v have vd: "validateDateFormat (upd_Date req) = None"
      and vt: "validateTimeFormat (upd_Time req) = None"
      by (simp_all add: validateDateTime_None)
    from validateDateFormat_None [OF vd] obtain a
      where a: "time_Parse layout_date (upd_Date req) = Inr a" by blast
    from validateTimeFormat_None [OF vt] obtain c
      where c: "time_Parse layout_time (upd_Time req) = Inr c" by blast
    from combined_parse [OF a c] obtain T
      where T: "time_Parse layout_datetime (upd_Date req @ '' '' @ upd_Time req) = Inr T"
      by blast
    show ?thesis using T both_past [OF b v T] both_ok [OF b v T] by blast
  qed
  show ?thesis
    using both_bad both_valid date_bad date_ok time_bad time_ok none by blast
qed

theorem update_validates_date_and_time_witness:
  "(0::int) < 1 \<and> Repository_GetEventByID sample_db 1 = Inr conference
   \<and> OrganizerID conference = 1
   \<and> time_Parse layout_datetime (upd_Date past_patch @ '' '' @ upd_Time past_patch)
       = Inr (time_Date 2020 1 1 10 0 0 0)
   \<and> time_Date 2020 1 1 10 0 0 0 < sample_now
   \<and> Service_UpdateEvent sample_now 1 past_patch 1 sample_db
       = (Inl (Errorf ''event date and time must be in the future''), sample_db)
   \<and> time_Parse layout_datetime (upd_Date future_patch @ '' '' @ upd_Time future_patch)
       = Inr (time_Date 2030 1 1 10 0 0 0)
   \<and> sample_now \<le> time_Date 2030 1 1 10 0 0 0
   \<and> (\<exists>updated. fst (Service_UpdateEvent sample_now 1 future_patch 1 sample_db) = Inr updated)
   \<and> validateDateFormat (upd_Date past_date_only) = None
   \<and> (\<exists>updated. fst (Service_UpdateEvent sample_now 1 past_date_only 1 sample_db)
                   = Inr updated)"
proof -
  have pos: "(0::int) < 1" by simp
  have ev: "Repository_GetEventByID sample_db 1 = Inr conference"
    by (simp add: Repository_GetEventByID_def QueryRow_def sample_db_def conference_def)
  have org: "OrganizerID conference = 1" by (simp add: conference_def)
  have d0: "time_Parse layout_date ''2020-01-01'' = Inr (time_Date 2020 1 1 0 0 0 0)"
    by code_simp
  have d1: "time_Parse layout_date ''2030-01-01'' = Inr (time_Date 2030 1 1 0 0 0 0)"
    by code_simp
  have t: "time_Parse layout_time ''10:00:00'' = Inr (time_Date 0 1 1 10 0 0 0)"
    by code_simp
  have dt0: "time_Parse layout_datetime ''2020-01-01 10:00:00''
               = Inr (time_Date 2020 1 1 10 0 0 0)"
    by code_simp
  have dt1: "time_Parse layout_datetime ''2030-01-01 10:00:00''
               = Inr (time_Date 2030 1 1 10 0 0 0)"
    by code_simp
  have before: "time_Date 2020 1 1 10 0 0 0 < sample_now"
    by (simp add: sample_now_def time_Date_def daysSinceEpoch_def daysBefore_def isLeap_def)
  have after: "sample_now \<le> time_Date 2030 1 1 10 0 0 0"
    by (simp add: sample_now_def time_Date_def daysSinceEpoch_def daysBefore_def isLeap_def)
  have fmt: "validateDateFormat ''2020-01-01'' = None" "validateDateFormat ''2030-01-01'' = None"
    "validateTimeFormat ''10:00:00'' = None"
    using d0 d1 t by (simp_all add: validateDateFormat_def validateTimeFormat_def)
  note past = update_validates_date_and_time [OF pos ev org, of past_patch sample_now]
  note future = update_validates_date_and_time [OF pos ev org, of future_patch sample_now]
  note date_only = update_validates_date_and_time [OF pos ev org, of past_date_only sample_now]
  have p: "Service_UpdateEvent sample_now 1 past_patch 1 sample_db
       = (Inl (Errorf ''event date and time must be in the future''), sample_db)"
    using past fmt dt0 before by (simp add: past_patch_def validateDateTime_None)
  have f: "\<exists>updated. fst (Service_UpdateEvent sample_now 1 future_patch 1 sample_db) = Inr updated"
    using future fmt dt1 after by (simp add: future_patch_def validateDateTime_None)
  have o: "\<exists>updated. fst (Service_UpdateEvent sample_now 1 past_date_only 1 sample_db)
                   = Inr updated"
    using date_only fmt by (simp add: past_date_only_def)
  show ?thesis
    using ev org dt0 dt1 before after fmt p f o
    by (simp add: past_patch_def future_patch_def past_date_only_def)
qed

section \<open>Adding an attendee directly\<close>

text \<open>
  C7. When \<^verbatim>\<open>InviteUserToEvent\<close> succeeds, the inviter is the organizer of the event, the
  role is one of \<^verbatim>\<open>attendee\<close>, \<^verbatim>\<open>collaborator\<close>, \<^verbatim>\<open>organizer\<close>, the invitee is not the
  inviter, and the store has one more attendee row, for the invitee with that role and
  status \<^verbatim>\<open>going\<close>; the invitations are untouched. For positive keys: a role outside the
  three fails with the role error; with a role among them, an inviter who is not the
  organizer of the event fails with \<^verbatim>\<open>only the event creator can invite users to this
  event\<close>, and the organizer inviting themselves fails with \<^verbatim>\<open>you cannot invite yourself
  to the event\<close>.
\<close>

theorem invite_user_to_event:
  "(\<forall>db'. Service_InviteUserToEvent now eventID inviterID req db = (None, db') \<longrightarrow>
      (\<exists>event. Repository_GetEventByID db eventID = Inr event \<and> OrganizerID event = inviterID)
      \<and> add_Role req \<in> {''attendee'', ''collaborator'', ''organizer''}
      \<and> add_UserID req \<noteq> inviterID
      \<and> event_attendees db' = event_attendees db @
           [\<lparr>att_ID = event_attendees_id_seq db, UserID = add_UserID req, EventID = eventID,
             Role = add_Role req, Status = ''going'', att_CreatedAt = now\<rparr>]
      \<and> invitations db' = invitations db)
   \<and> (0 < eventID \<and> 0 < inviterID \<and> 0 < add_UserID req \<longrightarrow>
        (add_Role req \<notin> {''attendee'', ''collaborator'', ''organizer''} \<longrightarrow>
           Service_InviteUserToEvent now eventID inviterID req db
             = (Some (Errorf (''invalid role: must be 'attendee', 'collaborator', or 'organizer''
                               @ [CHR 0x27])), db))
        \<and> (add_Role req \<in> {''attendee'', ''collaborator'', ''organizer''} \<longrightarrow>
             (\<forall>event. Repository_GetEventByID db eventID = Inr event \<longrightarrow>
                (OrganizerID event \<noteq> inviterID \<longrightarrow>
                   Service_InviteUserToEvent now eventID inviterID req db
                     = (Some (Errorf ''only the event creator can invite users to this event''),
                        db))
                \<and> (OrganizerID event = inviterID \<and> add_UserID req = inviterID \<longrightarrow>
                     Service_InviteUserToEvent now eventID inviterID req db
                       = (Some (Errorf ''you cannot invite yourself to the event''), db)))))"
proof (intro conjI allI impI)
  fix db'
  assume ok: "Service_InviteUserToEvent now eventID inviterID req db = (None, db')"
  then obtain event where ev: "Repository_GetEventByID db eventID = Inr event"
    and org: "OrganizerID event = inviterID"
    and role: "add_Role req \<in> {''attendee'', ''collaborator'', ''organizer''}"
    and self: "add_UserID req \<noteq> inviterID"
    and ins: "insert_event_attendee now (add_UserID req) eventID (add_Role req) ''going'' db
                = (None, db')"
    by (auto simp: Service_InviteUserToEvent_def Repository_AddAttendee_def
        split: if_splits sum.splits option.splits prod.splits)
  note db' = insert_event_attendee_None [OF ins]
  show "\<exists>event. Repository_GetEventByID db eventID = Inr event \<and> OrganizerID event = inviterID"
    using ev org by blast
  show "add_Role req \<in> {''attendee'', ''collaborator'', ''organizer''}" by (rule role)
  show "add_UserID req \<noteq> inviterID" by (rule self)
  show "event_attendees db' = event_attendees db @
           [\<lparr>att_ID = event_attendees_id_seq db, UserID = add_UserID req, EventID = eventID,
             Role = add_Role req, Status = ''going'', att_CreatedAt = now\<rparr>]"
    by (simp add: db')
  show "invitations db' = invitations db" by (simp add: db')
next
  assume "0 < eventID \<and> 0 < inviterID \<and> 0 < add_UserID req"
    and "add_Role req \<notin> {''attendee'', ''collaborator'', ''organizer''}"
  then show "Service_InviteUserToEvent now eventID inviterID req db
             = (Some (Errorf (''invalid role: must be 'attendee', 'collaborator', or 'organizer''
                               @ [CHR 0x27])), db)"
    by (simp add: Service_InviteUserToEvent_def)
next
  fix event
  assume pos: "0 < eventID \<and> 0 < inviterID \<and> 0 < add_UserID req"
    and role: "add_Role req \<in> {''attendee'', ''collaborator'', ''organizer''}"
    and ev: "Repository_GetEventByID db eventID = Inr event"
  have guard: "\<not> (add_Role req \<noteq> ''attendee'' \<and> add_Role req \<noteq> ''collaborator''
                  \<and> add_Role req \<noteq> ''organizer'')"
    using role by blast
  show "Service_InviteUserToEvent now eventID inviterID req db
          = (Some (Errorf ''only the event creator can invite users to this event''), db)"
    if "OrganizerID event \<noteq> inviterID"
    using that pos ev guard unfolding Service_InviteUserToEvent_def by simp
  show "Service_InviteUserToEvent now eventID inviterID req db
          = (Some (Errorf ''you cannot invite yourself to the event''), db)"
    if "OrganizerID event = inviterID \<and> add_UserID req = inviterID"
    using that pos ev guard unfolding Service_InviteUserToEvent_def by simp
qed

theorem invite_user_to_event_witness:
  "Service_InviteUserToEvent sample_now 1 1 \<lparr>add_UserID = 2, add_Role = ''collaborator''\<rparr> sample_db
     = (None, invited_db)
   \<and> event_attendees invited_db = event_attendees sample_db @
        [\<lparr>att_ID = 2, UserID = 2, EventID = 1, Role = ''collaborator'', Status = ''going'',
          att_CreatedAt = sample_now\<rparr>]
   \<and> invitations invited_db = invitations sample_db
   \<and> Service_InviteUserToEvent sample_now 1 1 \<lparr>add_UserID = 2, add_Role = ''guest''\<rparr> sample_db
       = (Some (Errorf (''invalid role: must be 'attendee', 'collaborator', or 'organizer''
                         @ [CHR 0x27])), sample_db)
   \<and> Repository_GetEventByID sample_db 1 = Inr conference
   \<and> OrganizerID conference \<noteq> 2
   \<and> Service_InviteUserToEvent sample_now 1 2 \<lparr>add_UserID = 1, add_Role = ''attendee''\<rparr> sample_db
       = (Some (Errorf ''only the event creator can invite users to this event''), sample_db)
   \<and> Service_InviteUserToEvent sample_now 1 1 \<lparr>add_UserID = 1, add_Role = ''attendee''\<rparr> sample_db
       = (Some (Errorf ''you cannot invite yourself to the event''), sample_db)"
proof -
  have run: "Service_InviteUserToEvent sample_now 1 1
               \<lparr>add_UserID = 2, add_Role = ''collaborator''\<rparr> sample_db = (None, invited_db)"
    by (simp add: Service_InviteUserToEvent_def Repository_AddAttendee_def
        Repository_GetEventByID_def QueryRow_def insert_event_attendee_def Let_def
        invited_db_def sample_db_def conference_def ann_attends_def ann_def bob_def)
  have ev: "Repository_GetEventByID sample_db 1 = Inr conference"
    by (simp add: Repository_GetEventByID_def QueryRow_def sample_db_def conference_def)
  have org: "OrganizerID conference = 1" by (simp add: conference_def)
  have seq: "event_attendees_id_seq sample_db = 2" by (simp add: sample_db_def)
  note added = invite_user_to_event [of sample_now 1 1
      "\<lparr>add_UserID = 2, add_Role = ''collaborator''\<rparr>" sample_db]
  note role = invite_user_to_event [of sample_now 1 1
      "\<lparr>add_UserID = 2, add_Role = ''guest''\<rparr>" sample_db]
  note stranger = invite_user_to_event [of sample_now 1 2
      "\<lparr>add_UserID = 1, add_Role = ''attendee''\<rparr>" sample_db]
  note self = invite_user_to_event [of sample_now 1 1
      "\<lparr>add_UserID = 1, add_Role = ''attendee''\<rparr>" sample_db]
  show ?thesis using run ev org seq added role stranger self by simp
qed

section \<open>Lists are never nil\<close>

text \<open>
  C10. Each of the seven list operations of the services, when it succeeds, returns a
  slice that is not nil; when the repository returns the nil slice the service returns
  the empty one. The repository returns nil when its query has no rows: with no events
  for \<^verbatim>\<open>GetAllEvents\<close>, no attendee of the event for \<^verbatim>\<open>GetEventAttendees\<close>, no invitation
  for the email for \<^verbatim>\<open>GetMyInvitations\<close>.
\<close>

theorem list_operations_never_nil:
  "(\<forall>s. Service_GetAllEvents db = Inr s \<longrightarrow> s \<noteq> None)
   \<and> (\<forall>s. Service_GetEventsByOrganizerID db n = Inr s \<longrightarrow> s \<noteq> None)
   \<and> (\<forall>s. Service_GetMyAttendingEvents db n = Inr s \<longrightarrow> s \<noteq> None)
   \<and> (\<forall>s. Service_GetEventAttendees db n = Inr s \<longrightarrow> s \<noteq> None)
   \<and> (\<forall>s. Service_GetMyOrganizedEvents db n = Inr s \<longrightarrow> s \<noteq> None)
   \<and> (\<forall>s. Service_GetMyInvitations db email = Inr s \<longrightarrow> s \<noteq> None)
   \<and> (\<forall>s. Service_GetEventInvitations db n = Inr s \<longrightarrow> s \<noteq> None)
   \<and> (Repository_GetAllEvents db = Inr None \<longrightarrow> Service_GetAllEvents db = Inr (Some []))
   \<and> (0 < n \<and> Repository_GetEventsByOrganizerID db n = Inr None \<longrightarrow>
        Service_GetEventsByOrganizerID db n = Inr (Some []))
   \<and> (0 < n \<and> Repository_GetEventsByAttendeeID db n = Inr None \<longrightarrow>
        Service_GetMyAttendingEvents db n = Inr (Some []))
   \<and> (0 < n \<and> Repository_GetEventAttendees db n = Inr None \<longrightarrow>
        Service_GetEventAttendees db n = Inr (Some []))
   \<and> (0 < n \<and> Repository_GetMyOrganizedEvents db n = Inr None \<longrightarrow>
        Service_GetMyOrganizedEvents db n = Inr (Some []))
   \<and> (Repository_GetInvitationsByEmail db email = Inr None \<longrightarrow>
        Service_GetMyInvitations db email = Inr (Some []))
   \<and> (Repository_GetInvitationsByEventID db n = Inr None \<longrightarrow>
        Service_GetEventInvitations db n = Inr (Some []))
   \<and> (events db = [] \<longrightarrow>
        Repository_GetAllEvents db = Inr None \<and> Service_GetAllEvents db = Inr (Some []))
   \<and> (0 < n \<and> \<not> (\<exists>a \<in> set (event_attendees db). EventID a = n) \<longrightarrow>
        Repository_GetEventAttendees db n = Inr None
        \<and> Service_GetEventAttendees db n = Inr (Some []))
   \<and> (\<not> (\<exists>i \<in> set (invitations db). InviteeEmail i = email) \<longrightarrow>
        Repository_GetInvitationsByEmail db email = Inr None
        \<and> Service_GetMyInvitations db email = Inr (Some []))"
proof -
  have services: "(\<forall>s. Service_GetAllEvents db = Inr s \<longrightarrow> s \<noteq> None)
   \<and> (\<forall>s. Service_GetEventsByOrganizerID db n = Inr s \<longrightarrow> s \<noteq> None)
   \<and> (\<forall>s. Service_GetMyAttendingEvents db n = Inr s \<longrightarrow> s \<noteq> None)
   \<and> (\<forall>s. Service_GetEventAttendees db n = Inr s \<longrightarrow> s \<noteq> None)
   \<and> (\<forall>s. Service_GetMyOrganizedEvents db n = Inr s \<longrightarrow> s \<noteq> None)
   \<and> (\<forall>s. Service_GetMyInvitations db email = Inr s \<longrightarrow> s \<noteq> None)
   \<and> (\<forall>s. Service_GetEventInvitations db n = Inr s \<longrightarrow> s \<noteq> None)"
    by (auto simp: Service_GetAllEvents_def Service_GetEventsByOrganizerID_def
        Service_GetMyAttendingEvents_def Service_GetEventAttendees_def
        Service_GetMyOrganizedEvents_def Service_GetMyInvitations_def
        Service_GetEventInvitations_def split: sum.splits if_splits)
  have nil: "(Repository_GetAllEvents db = Inr None \<longrightarrow> Service_GetAllEvents db = Inr (Some []))
   \<and> (0 < n \<and> Repository_GetEventsByOrganizerID db n = Inr None \<longrightarrow>
        Service_GetEventsByOrganizerID db n = Inr (Some []))
   \<and> (0 < n \<and> Repository_GetEventsByAttendeeID db n = Inr None \<longrightarrow>
        Service_GetMyAttendingEvents db n = Inr (Some []))
   \<and> (0 < n \<and> Repository_GetEventAttendees db n = Inr None \<longrightarrow>
        Service_GetEventAttendees db n = Inr (Some []))
   \<and> (0 < n \<and> Repository_GetMyOrganizedEvents db n = Inr None \<longrightarrow>
        Service_GetMyOrganizedEvents db n = Inr (Some []))
   \<and> (Repository_GetInvitationsByEmail db email = Inr None \<longrightarrow>
        Service_GetMyInvitations db email = Inr (Some []))
   \<and> (Repository_GetInvitationsByEventID db n = Inr None \<longrightarrow>
        Service_GetEventInvitations db n = Inr (Some []))"
    by (simp add: Service_GetAllEvents_def Service_GetEventsByOrganizerID_def
        Service_GetMyAttendingEvents_def Service_GetEventAttendees_def
        Service_GetMyOrganizedEvents_def Service_GetMyInvitations_def
        Service_GetEventInvitations_def)
  have all: "events db = [] \<longrightarrow>
        Repository_GetAllEvents db = Inr None \<and> Service_GetAllEvents db = Inr (Some [])"
    by (simp add: Service_GetAllEvents_def Repository_GetAllEvents_def scan_rows_eq
        ORDER_BY_DESC_Nil)
  have att: "0 < n \<and> \<not> (\<exists>a \<in> set (event_attendees db). EventID a = n) \<longrightarrow>
        Repository_GetEventAttendees db n = Inr None
        \<and> Service_GetEventAttendees db n = Inr (Some [])"
  proof
    assume a: "0 < n \<and> \<not> (\<exists>a \<in> set (event_attendees db). EventID a = n)"
    then have "filter (\<lambda>a. EventID a = n) (event_attendees db) = []"
      by (simp add: filter_empty_conv)
    with a show "Repository_GetEventAttendees db n = Inr None
        \<and> Service_GetEventAttendees db n = Inr (Some [])"
      by (simp add: Service_GetEventAttendees_def Repository_GetEventAttendees_def scan_rows_eq
          ORDER_BY_DESC_Nil)
  qed
  have inv: "\<not> (\<exists>i \<in> set (invitations db). InviteeEmail i = email) \<longrightarrow>
        Repository_GetInvitationsByEmail db email = Inr None
        \<and> Service_GetMyInvitations db email = Inr (Some [])"
  proof
    assume "\<not> (\<exists>i \<in> set (invitations db). InviteeEmail i = email)"
    then have "filter (\<lambda>i. InviteeEmail i = email) (invitations db) = []"
      by (simp add: filter_empty_conv)
    then show "Repository_GetInvitationsByEmail db email = Inr None
        \<and> Service_GetMyInvitations db email = Inr (Some [])"
      by (simp add: Service_GetMyInvitations_def Repository_GetInvitationsByEmail_def
          invitation_details_def scan_rows_eq ORDER_BY_DESC_Nil)
  qed
  from conjI [OF services conjI [OF nil conjI [OF all conjI [OF att inv]]]]
  show ?thesis by (simp only: conj_assoc)
qed

theorem list_operations_never_nil_witness:
  "events empty_db = []
   \<and> Repository_GetAllEvents empty_db = Inr None
   \<and> Service_GetAllEvents empty_db = Inr (Some [])
   \<and> (0::int) < 1 \<and> \<not> (\<exists>a \<in> set (event_attendees empty_db). EventID a = 1)
   \<and> Repository_GetEventAttendees empty_db 1 = Inr None
   \<and> Service_GetEventAttendees empty_db 1 = Inr (Some [])
   \<and> \<not> (\<exists>i \<in> set (invitations empty_db). InviteeEmail i = ''bob@example.com'')
   \<and> Repository_GetInvitationsByEmail empty_db ''bob@example.com'' = Inr None
   \<and> Service_GetMyInvitations empty_db ''bob@example.com'' = Inr (Some [])
   \<and> Service_GetAllEvents sample_db = Inr (Some [conference])
   \<and> Some [conference] \<noteq> None"
proof -
  have e: "events empty_db = []" "event_attendees empty_db = []" "invitations empty_db = []"
    by (simp_all add: empty_db_def)
  have r: "Service_GetAllEvents sample_db = Inr (Some [conference])"
    by (simp add: Service_GetAllEvents_def Repository_GetAllEvents_def sample_db_def
        scan_rows_eq ORDER_BY_DESC_def)
  show ?thesis
    using e r list_operations_never_nil [of empty_db 1 "''bob@example.com''"]
      list_operations_never_nil [of sample_db 1 "''bob@example.com''"]
    by simp
qed

section \<open>Login: one message for both failures\<close>

text \<open>
  C9. A login that fails because no user has the email, and a login that fails because the
  password does not match the stored hash of the user found, return the same error,
  \<^verbatim>\<open>invalid email or password\<close>: the caller cannot tell the two causes apart.
\<close>

theorem Login_same_failure_message:
  "(\<not> (\<exists>u \<in> set (users db). user_Email u = login_Email req) \<longrightarrow>
      Service_Login deps now db req = Inl (Errorf ''invalid email or password''))
   \<and> (\<forall>u err. QueryRow (filter (\<lambda>u. user_Email u = login_Email req) (users db)) = Inr u
          \<and> CompareHashAndPassword deps (PasswordHash u) (login_Password req) = Some err \<longrightarrow>
      Service_Login deps now db req = Inl (Errorf ''invalid email or password''))"
proof (intro conjI impI allI)
  assume "\<not> (\<exists>u \<in> set (users db). user_Email u = login_Email req)"
  then have "filter (\<lambda>u. user_Email u = login_Email req) (users db) = []"
    by (simp add: filter_empty_conv)
  then show "Service_Login deps now db req = Inl (Errorf ''invalid email or password'')"
    by (simp add: Service_Login_def QueryRow_def)
next
  fix u err
  assume "QueryRow (filter (\<lambda>u. user_Email u = login_Email req) (users db)) = Inr u
          \<and> CompareHashAndPassword deps (PasswordHash u) (login_Password req) = Some err"
  then show "Service_Login deps now db req = Inl (Errorf ''invalid email or password'')"
    by (simp add: Service_Login_def)
qed

theorem Login_same_failure_message_witness:
  "\<not> (\<exists>u \<in> set (users sample_db). user_Email u = ''eve@example.com'')
   \<and> Service_Login sample_deps sample_now sample_db
        \<lparr>login_Email = ''eve@example.com'', login_Password = ''secret''\<rparr>
       = Inl (Errorf ''invalid email or password'')
   \<and> QueryRow (filter (\<lambda>u. user_Email u = ''ann@example.com'') (users sample_db)) = Inr ann
   \<and> CompareHashAndPassword sample_deps (PasswordHash ann) ''wrong'' \<noteq> None
   \<and> Service_Login sample_deps sample_now sample_db
        \<lparr>login_Email = ''ann@example.com'', login_Password = ''wrong''\<rparr>
       = Inl (Errorf ''invalid email or password'')"
proof -
  have h1: "\<not> (\<exists>u \<in> set (users sample_db). user_Email u = ''eve@example.com'')"
    by (simp add: sample_defs)
  have h2: "QueryRow (filter (\<lambda>u. user_Email u = ''ann@example.com'') (users sample_db))
              = Inr ann"
    by (simp add: sample_defs QueryRow_def)
  have h3: "CompareHashAndPassword sample_deps (PasswordHash ann) ''wrong''
              = Some (Errorf ''hashedPassword is not the hash of the given password'')"
    by (simp add: sample_defs)
  note unknown = Login_same_failure_message [of sample_db
        "\<lparr>login_Email = ''eve@example.com'', login_Password = ''secret''\<rparr>"
        sample_deps sample_now]
  note mismatch = Login_same_failure_message [of sample_db
        "\<lparr>login_Email = ''ann@example.com'', login_Password = ''wrong''\<rparr>"
        sample_deps sample_now]
  show ?thesis using h1 h2 h3 unknown mismatch by simp
qed

end
